theory Spec2Isabelle
  imports Complex_Main "HOL-Library.Sublist"
begin

section \<open>The notebook as a script over an external library\<close>

text \<open>
  The repository is one Jupyter notebook, \<^verbatim>\<open>intermediate-ml.ipynb\<close>. Its code cells are
  sequences of calls into pandas, scikit-learn, numpy and matplotlib. The notebook is
  embedded as a function of the library: every import, call, attribute read and
  subscript is one request to the library, which answers with a value or raises. The
  values the library hands back are opaque (type \<open>'o\<close>); the notebook only stores them
  in variables and passes them on, inside the Python literals it writes itself.
\<close>

datatype 'o pyval =
    PNone
  | PBool bool
  | PInt int
  | PFloat rat
  | PStr string
  | PList "'o pyval list"
  | PTuple "'o pyval list"
  | PDict "(string \<times> 'o pyval) list"
  | PRef 'o

text \<open>
  \<open>Import m ns\<close> is \<^verbatim>\<open>import m\<close> (with \<open>ns = []\<close>, also for \<^verbatim>\<open>import m as x\<close>) or
  \<^verbatim>\<open>from m import ns\<close>; \<open>Invoke f args kwargs\<close> is \<^verbatim>\<open>f(*args, **kwargs)\<close> with \<open>f\<close> spelled
  as in the source; \<open>Method r n args kwargs\<close> is \<^verbatim>\<open>r.n(*args, **kwargs)\<close>; \<open>GetAttr r n\<close>
  is \<^verbatim>\<open>r.n\<close>; \<open>GetItem r k\<close> is \<^verbatim>\<open>r[k]\<close>.
\<close>

datatype 'o call =
    Import string "string list"
  | Invoke string "'o pyval list" "(string \<times> 'o pyval) list"
  | Method "'o pyval" string "'o pyval list" "(string \<times> 'o pyval) list"
  | GetAttr "'o pyval" string
  | GetItem "'o pyval" "'o pyval"

text \<open>
  A run leaves a trace: each request with the library's answer (\<open>Inl\<close> an exception the
  library raised), and each value Jupyter shows as the output of a cell (the value of a
  cell's last expression statement, unless it is \<^verbatim>\<open>None\<close>).
\<close>

datatype ('o, 'e) event =
    Called "'o call" "'e + 'o"
  | Shown 'o

text \<open>
  The library answers a request from the history of the run so far, so it may keep
  state (a fitted estimator), read the network or draw random numbers. \<open>is_none\<close> and
  \<open>items\<close> are what the interpreter observes of a returned value: whether it is
  \<^verbatim>\<open>None\<close>, and the elements it yields when it is unpacked.
\<close>

record ('o, 'e) library =
  answer :: "('o, 'e) event list \<Rightarrow> 'o call \<Rightarrow> 'e + 'o"
  is_none :: "'o \<Rightarrow> bool"
  items :: "'o \<Rightarrow> 'o list option"

text \<open>
  A script ends with a value or with an exception: one the library raised, or the
  interpreter's own error when a tuple assignment does not find four values.
\<close>

datatype 'e failure = Raised 'e | UnpackFailed

type_synonym ('a, 'o, 'e) script =
  "('o, 'e) library \<Rightarrow> ('o, 'e) event list \<Rightarrow> ('e failure + 'a) \<times> ('o, 'e) event list"

definition ret :: "'a \<Rightarrow> ('a, 'o, 'e) script" where
  "ret x = (\<lambda>L tr. (Inr x, tr))"

definition call :: "'o call \<Rightarrow> ('o, 'o, 'e) script" where
  "call c = (\<lambda>L tr.
     (case answer L tr c of
        Inl e \<Rightarrow> (Inl (Raised e), tr @ [Called c (Inl e)])
      | Inr v \<Rightarrow> (Inr v, tr @ [Called c (Inr v)])))"

definition display :: "'o \<Rightarrow> (unit, 'o, 'e) script" where
  "display v = (\<lambda>L tr. (Inr (), if is_none L v then tr else tr @ [Shown v]))"

definition unpack4 :: "'o \<Rightarrow> ('o \<times> 'o \<times> 'o \<times> 'o, 'o, 'e) script" where
  "unpack4 v = (\<lambda>L tr.
     (case items L v of
        Some [a, b, c, d] \<Rightarrow> (Inr (a, b, c, d), tr)
      | _ \<Rightarrow> (Inl UnpackFailed, tr)))"

text \<open>Statement sequencing: an exception ends the script, the rest is not run.\<close>

definition andthen :: "('a, 'o, 'e) script \<Rightarrow> ('a \<Rightarrow> ('b, 'o, 'e) script) \<Rightarrow> ('b, 'o, 'e) script" where
  "andthen m f = (\<lambda>L tr.
     (case m L tr of
        (Inl x, tr') \<Rightarrow> (Inl x, tr')
      | (Inr a, tr') \<Rightarrow> f a L tr'))"

subsection \<open>The code cells\<close>

text \<open>
  One definition per code cell, in the notebook's order. A cell takes the variables
  it reads and returns the ones later cells read. Arguments are evaluated left to
  right, inner calls first, as Python does.
\<close>

definition cell_1 :: "('o, 'o, 'e) script" where
  "cell_1 =
     andthen (call (Import ''pandas'' [])) (\<lambda>_.
     andthen (call (Invoke ''pandas.read_csv''
                [PStr ''https://hbiostat.org/data/repo/titanic.txt'']
                [(''index_col'', PInt 0)])) (\<lambda>titanic.
     andthen (call (Method (PRef titanic) ''head'' [] [])) (\<lambda>out.
     andthen (display out) (\<lambda>_.
     ret titanic))))"

definition cell_2 :: "'o \<Rightarrow> ('o \<times> 'o \<times> 'o \<times> 'o, 'o, 'e) script" where
  "cell_2 titanic =
     andthen (call (Import ''sklearn.model_selection'' [''train_test_split''])) (\<lambda>_.
     andthen (call (Method (PRef titanic) ''drop'' [PStr ''survived'']
                [(''axis'', PInt 1)])) (\<lambda>titanic_X.
     andthen (call (GetItem (PRef titanic) (PStr ''survived''))) (\<lambda>titanic_y.
     andthen (call (Invoke ''train_test_split'' [PRef titanic_X, PRef titanic_y]
                [(''test_size'', PFloat (2 / 10)), (''random_state'', PInt 42)])) (\<lambda>parts.
     unpack4 parts))))"

definition cell_3 :: "('o, 'o, 'e) script" where
  "cell_3 =
     andthen (call (Import ''sklearn.pipeline'' [''Pipeline'', ''make_pipeline''])) (\<lambda>_.
     andthen (call (Import ''sklearn.compose'' [''ColumnTransformer''])) (\<lambda>_.
     andthen (call (Import ''sklearn.impute'' [''SimpleImputer''])) (\<lambda>_.
     andthen (call (Import ''sklearn.preprocessing'' [''OneHotEncoder''])) (\<lambda>_.
     andthen (call (Import ''sklearn.tree'' [''DecisionTreeClassifier''])) (\<lambda>_.
     andthen (call (Import ''sklearn.preprocessing'' [''FunctionTransformer''])) (\<lambda>_.
     (let num = PList [PStr ''age''];
          cat = PList [PStr ''pclass'', PStr ''sex'']
      in
     andthen (call (Invoke ''SimpleImputer'' []
                [(''strategy'', PStr ''most_frequent'')])) (\<lambda>imp_cat.
     andthen (call (Invoke ''OneHotEncoder'' []
                [(''sparse'', PBool False), (''drop'', PStr ''first'')])) (\<lambda>enc.
     andthen (call (Invoke ''make_pipeline'' [PRef imp_cat, PRef enc] [])) (\<lambda>cat_pipe.
     andthen (call (Invoke ''SimpleImputer'' [] [(''strategy'', PStr ''mean'')])) (\<lambda>imp_num.
     andthen (call (Invoke ''ColumnTransformer''
                [PList [PTuple [PStr ''cat'', PRef cat_pipe, cat],
                        PTuple [PStr ''num'', PRef imp_num, num]]]
                [(''remainder'', PStr ''drop'')])) (\<lambda>ct.
     andthen (call (Invoke ''DecisionTreeClassifier'' []
                [(''criterion'', PStr ''entropy''), (''max_depth'', PInt 3),
                 (''min_samples_leaf'', PInt 5)])) (\<lambda>tree.
     call (Invoke ''Pipeline''
                [PList [PTuple [PStr ''preprocessing'', PRef ct],
                        PTuple [PStr ''predictor'', PRef tree]]] []))))))))))))))"

definition cell_4 :: "'o \<Rightarrow> 'o \<Rightarrow> 'o \<Rightarrow> (unit, 'o, 'e) script" where
  "cell_4 predictor X_train y_train =
     andthen (call (Method (PRef predictor) ''fit'' [PRef X_train, PRef y_train] [])) (\<lambda>out.
     display out)"

definition cell_5 :: "'o \<Rightarrow> 'o \<Rightarrow> 'o \<Rightarrow> 'o \<Rightarrow> ('o, 'o, 'e) script" where
  "cell_5 predictor X_train y_train X_test =
     andthen (call (Method (PRef predictor) ''score'' [PRef X_train, PRef y_train] [])) (\<lambda>s.
     andthen (call (Invoke ''print'' [PStr ''Train score:'', PRef s] [])) (\<lambda>_.
     andthen (call (Method (PRef predictor) ''predict'' [PRef X_test] [])) (\<lambda>y_test_pred.
     andthen (display y_test_pred) (\<lambda>_.
     ret y_test_pred))))"

definition cell_6 :: "('o, 'o, 'e) script" where
  "cell_6 =
     andthen (call (Import ''numpy'' [])) (\<lambda>_.
     andthen (call (Invoke ''numpy.array''
                [PList (replicate 95 (PInt 1) @ replicate 5 (PInt 0))] [])) (\<lambda>y.
     andthen (display y) (\<lambda>_.
     ret y)))"

definition cell_7 :: "'o \<Rightarrow> ('o, 'o, 'e) script" where
  "cell_7 y =
     andthen (call (Import ''sklearn.metrics'' [''accuracy_score''])) (\<lambda>_.
     andthen (call (Invoke ''numpy.ones'' [PInt 100] [])) (\<lambda>y_pred.
     andthen (call (Invoke ''accuracy_score'' [PRef y, PRef y_pred] [])) (\<lambda>out.
     andthen (display out) (\<lambda>_.
     ret y_pred))))"

definition cell_8 :: "'o \<Rightarrow> 'o \<Rightarrow> ('o, 'o, 'e) script" where
  "cell_8 y y_pred =
     andthen (call (Import ''sklearn.metrics'' [''confusion_matrix''])) (\<lambda>_.
     andthen (call (Invoke ''confusion_matrix'' [PRef y, PRef y_pred] [])) (\<lambda>conf_matrix.
     andthen (display conf_matrix) (\<lambda>_.
     ret conf_matrix)))"

definition cell_9 :: "'o \<Rightarrow> (unit, 'o, 'e) script" where
  "cell_9 conf_matrix =
     andthen (call (Import ''sklearn.metrics'' [''ConfusionMatrixDisplay''])) (\<lambda>_.
     andthen (call (Import ''matplotlib.pyplot'' [])) (\<lambda>_.
     andthen (call (Invoke ''ConfusionMatrixDisplay'' [PRef conf_matrix] [])) (\<lambda>disp.
     andthen (call (Method (PRef disp) ''plot'' [] [])) (\<lambda>_.
     andthen (call (Invoke ''plt.show'' [] [])) (\<lambda>out.
     display out)))))"

definition cell_10 :: "'o \<Rightarrow> 'o \<Rightarrow> (unit, 'o, 'e) script" where
  "cell_10 y y_pred =
     andthen (call (Import ''sklearn.metrics'' [''balanced_accuracy_score''])) (\<lambda>_.
     andthen (call (Invoke ''balanced_accuracy_score'' [PRef y, PRef y_pred] [])) (\<lambda>out.
     display out))"

definition cell_11 :: "'o \<Rightarrow> 'o \<Rightarrow> (unit, 'o, 'e) script" where
  "cell_11 y y_pred =
     andthen (call (Import ''sklearn.metrics'' [''precision_score''])) (\<lambda>_.
     andthen (call (Invoke ''precision_score'' [PRef y, PRef y_pred] [])) (\<lambda>out.
     display out))"

definition cell_12 :: "'o \<Rightarrow> 'o \<Rightarrow> (unit, 'o, 'e) script" where
  "cell_12 y y_pred =
     andthen (call (Import ''sklearn.metrics'' [''recall_score''])) (\<lambda>_.
     andthen (call (Invoke ''recall_score'' [PRef y, PRef y_pred] [])) (\<lambda>out.
     display out))"

text \<open>The thirteenth code cell holds only the comment \<^verbatim>\<open># Your code here\<close>.\<close>

definition cell_13 :: "(unit, 'o, 'e) script" where
  "cell_13 = ret ()"

definition cell_14 :: "'o \<Rightarrow> 'o \<Rightarrow> 'o \<Rightarrow> (unit, 'o, 'e) script" where
  "cell_14 predictor X_train y_train =
     andthen (call (Import ''sklearn.model_selection'' [''cross_val_score''])) (\<lambda>_.
     andthen (call (Invoke ''cross_val_score'' [PRef predictor, PRef X_train, PRef y_train]
                [(''cv'', PInt 10)])) (\<lambda>out.
     display out))"

text \<open>The dictionary cell 15 binds to \<^verbatim>\<open>parameters\<close>, the grid of the exhaustive search.\<close>

definition parameters_grid :: "'o pyval" where
  "parameters_grid = PDict
     [(''preprocessing__num__strategy'', PTuple [PStr ''mean'', PStr ''median'']),
      (''predictor__criterion'', PTuple [PStr ''gini'', PStr ''entropy'']),
      (''predictor__max_depth'', PTuple [PInt 3, PInt 5, PInt 10]),
      (''predictor__min_samples_leaf'', PTuple [PInt 5, PInt 10, PInt 20])]"

definition cell_15 :: "'o \<Rightarrow> 'o \<Rightarrow> 'o \<Rightarrow> ('o, 'o, 'e) script" where
  "cell_15 predictor X_train y_train =
     andthen (call (Import ''sklearn.model_selection'' [''GridSearchCV''])) (\<lambda>_.
     (let parameters = parameters_grid in
     andthen (call (Invoke ''GridSearchCV'' [PRef predictor, parameters]
                [(''cv'', PInt 5)])) (\<lambda>clf.
     andthen (call (Method (PRef clf) ''fit'' [PRef X_train, PRef y_train] [])) (\<lambda>_.
     andthen (call (GetAttr (PRef clf) ''best_estimator_'')) (\<lambda>out.
     andthen (display out) (\<lambda>_.
     ret clf))))))"

definition cell_16 :: "'o \<Rightarrow> 'o \<Rightarrow> 'o \<Rightarrow> 'o \<Rightarrow> (unit, 'o, 'e) script" where
  "cell_16 predictor clf X_test y_test =
     andthen (call (Method (PRef predictor) ''score'' [PRef X_test, PRef y_test] [])) (\<lambda>s.
     andthen (call (Invoke ''print'' [PStr ''* Original test score:'', PRef s] [])) (\<lambda>_.
     andthen (call (GetAttr (PRef clf) ''best_estimator_'')) (\<lambda>best.
     andthen (call (Method (PRef best) ''score'' [PRef X_test, PRef y_test] [])) (\<lambda>s'.
     andthen (call (Invoke ''print'' [PStr ''* GridSearchCV test score:'', PRef s'] [])) (\<lambda>_.
     ret ())))))"

definition cell_17 :: "'o \<Rightarrow> 'o \<Rightarrow> 'o \<Rightarrow> ('o, 'o, 'e) script" where
  "cell_17 predictor X_train y_train =
     andthen (call (Import ''sklearn.model_selection'' [''RandomizedSearchCV''])) (\<lambda>_.
     (let parameters = PDict
            [(''preprocessing__num__strategy'', PTuple [PStr ''mean'', PStr ''median'']),
             (''predictor__criterion'', PTuple [PStr ''gini'', PStr ''entropy'']),
             (''predictor__max_depth'', PList (map PInt [3..19])),
             (''predictor__min_samples_leaf'', PList (map PInt [1..99]))]
      in
     andthen (call (Invoke ''RandomizedSearchCV'' [PRef predictor, parameters]
                [(''cv'', PInt 5), (''random_state'', PInt 42)])) (\<lambda>clf.
     andthen (call (Method (PRef clf) ''fit'' [PRef X_train, PRef y_train] [])) (\<lambda>_.
     andthen (call (GetAttr (PRef clf) ''best_estimator_'')) (\<lambda>out.
     andthen (display out) (\<lambda>_.
     ret clf))))))"

definition cell_18 :: "'o \<Rightarrow> 'o \<Rightarrow> 'o \<Rightarrow> 'o \<Rightarrow> (unit, 'o, 'e) script" where
  "cell_18 predictor clf X_test y_test =
     andthen (call (Method (PRef predictor) ''score'' [PRef X_test, PRef y_test] [])) (\<lambda>s.
     andthen (call (Invoke ''print'' [PStr ''* Original test score:'', PRef s] [])) (\<lambda>_.
     andthen (call (GetAttr (PRef clf) ''best_estimator_'')) (\<lambda>best.
     andthen (call (Method (PRef best) ''score'' [PRef X_test, PRef y_test] [])) (\<lambda>s'.
     andthen (call (Invoke ''print''
                [PStr ''* RandomizedSearchCV test score:'', PRef s'] [])) (\<lambda>_.
     ret ())))))"

text \<open>Running every cell from the top, as \<^emph>\<open>Run All\<close> does: the first exception stops the run.\<close>

definition notebook :: "(unit, 'o, 'e) script" where
  "notebook =
     andthen cell_1 (\<lambda>titanic.
     andthen (cell_2 titanic) (\<lambda>(X_train, X_test, y_train, y_test).
     andthen cell_3 (\<lambda>predictor.
     andthen (cell_4 predictor X_train y_train) (\<lambda>_.
     andthen (cell_5 predictor X_train y_train X_test) (\<lambda>y_test_pred.
     andthen cell_6 (\<lambda>y.
     andthen (cell_7 y) (\<lambda>y_pred.
     andthen (cell_8 y y_pred) (\<lambda>conf_matrix.
     andthen (cell_9 conf_matrix) (\<lambda>_.
     andthen (cell_10 y y_pred) (\<lambda>_.
     andthen (cell_11 y y_pred) (\<lambda>_.
     andthen (cell_12 y y_pred) (\<lambda>_.
     andthen cell_13 (\<lambda>_.
     andthen (cell_14 predictor X_train y_train) (\<lambda>_.
     andthen (cell_15 predictor X_train y_train) (\<lambda>clf.
     andthen (cell_16 predictor clf X_test y_test) (\<lambda>_.
     andthen (cell_17 predictor X_train y_train) (\<lambda>clf.
     cell_18 predictor clf X_test y_test)))))))))))))))))"

subsection \<open>Reading a trace\<close>

fun calls_of :: "('o, 'e) event list \<Rightarrow> 'o call list" where
  "calls_of [] = []"
| "calls_of (Called c r # evs) = c # calls_of evs"
| "calls_of (Shown v # evs) = calls_of evs"

text \<open>The exceptions the library raised during a run, in order.\<close>

fun raises :: "('o, 'e) event list \<Rightarrow> 'e list" where
  "raises [] = []"
| "raises (Called c (Inl e) # evs) = e # raises evs"
| "raises (Called c (Inr v) # evs) = raises evs"
| "raises (Shown v # evs) = raises evs"

text \<open>
  \<open>answered L tr evs\<close>: every answer recorded in \<open>evs\<close> is the one library \<open>L\<close> gives to
  that request after the history \<open>tr\<close> and the events before it.
\<close>

fun answered :: "('o, 'e) library \<Rightarrow> ('o, 'e) event list \<Rightarrow> ('o, 'e) event list \<Rightarrow> bool" where
  "answered L tr [] = True"
| "answered L tr (Called c r # evs) = (r = answer L tr c \<and> answered L (tr @ [Called c r]) evs)"
| "answered L tr (Shown v # evs) = answered L (tr @ [Shown v]) evs"

text \<open>
  The shape of a request: the request as the notebook's text writes it, with every
  value that came back from the library blanked out.
\<close>

definition shape :: "'o call \<Rightarrow> unit call" where
  "shape c = map_call (\<lambda>_. ()) c"

definition entry :: "'o call \<Rightarrow> string" where
  "entry c =
     (case c of
        Import m ns \<Rightarrow> ''import '' @ m
      | Invoke f args kw \<Rightarrow> f
      | Method r n args kw \<Rightarrow> ''.'' @ n
      | GetAttr r n \<Rightarrow> ''.'' @ n
      | GetItem r k \<Rightarrow> ''[]'')"

definition kwargs_of :: "'o call \<Rightarrow> (string \<times> 'o pyval) list" where
  "kwargs_of c =
     (case c of
        Invoke f args kw \<Rightarrow> kw
      | Method r n args kw \<Rightarrow> kw
      | _ \<Rightarrow> [])"

text \<open>
  A straight-line script with request shapes \<open>ss\<close>: whatever the library answers, the
  requests made are \<open>ss\<close> from its start, one after the other and as far as the run
  gets; the run gets through all of \<open>ss\<close> when it ends with a value; and an exception
  of the library ends the run at the request that raised it, with that exception.
\<close>

definition straight :: "('a, 'o, 'e) script \<Rightarrow> unit call list \<Rightarrow> bool" where
  "straight m ss \<longleftrightarrow>
     (\<forall>L tr. \<exists>new.
        snd (m L tr) = tr @ new \<and> answered L tr new \<and>
        prefix (map shape (calls_of new)) ss \<and>
        (case fst (m L tr) of
           Inr x \<Rightarrow> map shape (calls_of new) = ss \<and> raises new = []
         | Inl UnpackFailed \<Rightarrow> raises new = []
         | Inl (Raised e) \<Rightarrow> (\<exists>pre c. new = pre @ [Called c (Inl e)] \<and> raises pre = [])))"

subsection \<open>The requests of each cell, in textual order\<close>

definition cell_1_text :: "unit call list" where
  "cell_1_text =
     [Import ''pandas'' [],
      Invoke ''pandas.read_csv'' [PStr ''https://hbiostat.org/data/repo/titanic.txt'']
        [(''index_col'', PInt 0)],
      Method (PRef ()) ''head'' [] []]"

definition cell_2_text :: "unit call list" where
  "cell_2_text =
     [Import ''sklearn.model_selection'' [''train_test_split''],
      Method (PRef ()) ''drop'' [PStr ''survived''] [(''axis'', PInt 1)],
      GetItem (PRef ()) (PStr ''survived''),
      Invoke ''train_test_split'' [PRef (), PRef ()]
        [(''test_size'', PFloat (2 / 10)), (''random_state'', PInt 42)]]"

definition cell_3_text :: "unit call list" where
  "cell_3_text =
     [Import ''sklearn.pipeline'' [''Pipeline'', ''make_pipeline''],
      Import ''sklearn.compose'' [''ColumnTransformer''],
      Import ''sklearn.impute'' [''SimpleImputer''],
      Import ''sklearn.preprocessing'' [''OneHotEncoder''],
      Import ''sklearn.tree'' [''DecisionTreeClassifier''],
      Import ''sklearn.preprocessing'' [''FunctionTransformer''],
      Invoke ''SimpleImputer'' [] [(''strategy'', PStr ''most_frequent'')],
      Invoke ''OneHotEncoder'' [] [(''sparse'', PBool False), (''drop'', PStr ''first'')],
      Invoke ''make_pipeline'' [PRef (), PRef ()] [],
      Invoke ''SimpleImputer'' [] [(''strategy'', PStr ''mean'')],
      Invoke ''ColumnTransformer''
        [PList [PTuple [PStr ''cat'', PRef (), PList [PStr ''pclass'', PStr ''sex'']],
                PTuple [PStr ''num'', PRef (), PList [PStr ''age'']]]]
        [(''remainder'', PStr ''drop'')],
      Invoke ''DecisionTreeClassifier'' []
        [(''criterion'', PStr ''entropy''), (''max_depth'', PInt 3),
         (''min_samples_leaf'', PInt 5)],
      Invoke ''Pipeline''
        [PList [PTuple [PStr ''preprocessing'', PRef ()],
                PTuple [PStr ''predictor'', PRef ()]]] []]"

definition cell_4_text :: "unit call list" where
  "cell_4_text = [Method (PRef ()) ''fit'' [PRef (), PRef ()] []]"

definition cell_5_text :: "unit call list" where
  "cell_5_text =
     [Method (PRef ()) ''score'' [PRef (), PRef ()] [],
      Invoke ''print'' [PStr ''Train score:'', PRef ()] [],
      Method (PRef ()) ''predict'' [PRef ()] []]"

definition cell_6_text :: "unit call list" where
  "cell_6_text =
     [Import ''numpy'' [],
      Invoke ''numpy.array'' [PList (replicate 95 (PInt 1) @ replicate 5 (PInt 0))] []]"

definition cell_7_text :: "unit call list" where
  "cell_7_text =
     [Import ''sklearn.metrics'' [''accuracy_score''],
      Invoke ''numpy.ones'' [PInt 100] [],
      Invoke ''accuracy_score'' [PRef (), PRef ()] []]"

definition cell_8_text :: "unit call list" where
  "cell_8_text =
     [Import ''sklearn.metrics'' [''confusion_matrix''],
      Invoke ''confusion_matrix'' [PRef (), PRef ()] []]"

definition cell_9_text :: "unit call list" where
  "cell_9_text =
     [Import ''sklearn.metrics'' [''ConfusionMatrixDisplay''],
      Import ''matplotlib.pyplot'' [],
      Invoke ''ConfusionMatrixDisplay'' [PRef ()] [],
      Method (PRef ()) ''plot'' [] [],
      Invoke ''plt.show'' [] []]"

definition cell_10_text :: "unit call list" where
  "cell_10_text =
     [Import ''sklearn.metrics'' [''balanced_accuracy_score''],
      Invoke ''balanced_accuracy_score'' [PRef (), PRef ()] []]"

definition cell_11_text :: "unit call list" where
  "cell_11_text =
     [Import ''sklearn.metrics'' [''precision_score''],
      Invoke ''precision_score'' [PRef (), PRef ()] []]"

definition cell_12_text :: "unit call list" where
  "cell_12_text =
     [Import ''sklearn.metrics'' [''recall_score''],
      Invoke ''recall_score'' [PRef (), PRef ()] []]"

definition cell_14_text :: "unit call list" where
  "cell_14_text =
     [Import ''sklearn.model_selection'' [''cross_val_score''],
      Invoke ''cross_val_score'' [PRef (), PRef (), PRef ()] [(''cv'', PInt 10)]]"

definition cell_15_text :: "unit call list" where
  "cell_15_text =
     [Import ''sklearn.model_selection'' [''GridSearchCV''],
      Invoke ''GridSearchCV''
        [PRef (), parameters_grid]
        [(''cv'', PInt 5)],
      Method (PRef ()) ''fit'' [PRef (), PRef ()] [],
      GetAttr (PRef ()) ''best_estimator_'']"

definition cell_16_text :: "unit call list" where
  "cell_16_text =
     [Method (PRef ()) ''score'' [PRef (), PRef ()] [],
      Invoke ''print'' [PStr ''* Original test score:'', PRef ()] [],
      GetAttr (PRef ()) ''best_estimator_'',
      Method (PRef ()) ''score'' [PRef (), PRef ()] [],
      Invoke ''print'' [PStr ''* GridSearchCV test score:'', PRef ()] []]"

definition cell_17_text :: "unit call list" where
  "cell_17_text =
     [Import ''sklearn.model_selection'' [''RandomizedSearchCV''],
      Invoke ''RandomizedSearchCV''
        [PRef (),
         PDict
           [(''preprocessing__num__strategy'', PTuple [PStr ''mean'', PStr ''median'']),
            (''predictor__criterion'', PTuple [PStr ''gini'', PStr ''entropy'']),
            (''predictor__max_depth'', PList (map PInt [3..19])),
            (''predictor__min_samples_leaf'', PList (map PInt [1..99]))]]
        [(''cv'', PInt 5), (''random_state'', PInt 42)],
      Method (PRef ()) ''fit'' [PRef (), PRef ()] [],
      GetAttr (PRef ()) ''best_estimator_'']"

definition cell_18_text :: "unit call list" where
  "cell_18_text =
     [Method (PRef ()) ''score'' [PRef (), PRef ()] [],
      Invoke ''print'' [PStr ''* Original test score:'', PRef ()] [],
      GetAttr (PRef ()) ''best_estimator_'',
      Method (PRef ()) ''score'' [PRef (), PRef ()] [],
      Invoke ''print'' [PStr ''* RandomizedSearchCV test score:'', PRef ()] []]"

definition textual_order :: "unit call list" where
  "textual_order =
     cell_1_text @ cell_2_text @ cell_3_text @ cell_4_text @ cell_5_text @ cell_6_text @
     cell_7_text @ cell_8_text @ cell_9_text @ cell_10_text @ cell_11_text @ cell_12_text @
     [] @ cell_14_text @ cell_15_text @ cell_16_text @ cell_17_text @ cell_18_text"

subsection \<open>Libraries to run the notebook against\<close>

text \<open>
  The echoing library answers every request with a fresh handle that names the event
  which produced it, so that a trace shows where each value went. As the libraries
  document, \<^verbatim>\<open>train_test_split\<close> answers with two parts per array, and \<^verbatim>\<open>print\<close> and
  \<^verbatim>\<open>plt.show\<close> answer \<^verbatim>\<open>None\<close>. \<open>Labels ys\<close> stands for a column of label values.
\<close>

datatype handle = Nothing | Res nat | Part nat nat | Several "handle list" | Labels "int list"

definition echo :: "(handle, 'e) library" where
  "echo = \<lparr>
     answer = (\<lambda>tr c.
       Inr (case c of
              Invoke f args kw \<Rightarrow>
                if f = ''train_test_split''
                then Several (map (Part (length tr)) [0..<2 * length args])
                else if f = ''print'' \<or> f = ''plt.show'' then Nothing
                else Res (length tr)
            | _ \<Rightarrow> Res (length tr))),
     is_none = (\<lambda>v. v = Nothing),
     items = (\<lambda>v. case v of Several hs \<Rightarrow> Some hs | _ \<Rightarrow> None) \<rparr>"

text \<open>A library without network: \<^verbatim>\<open>pandas.read_csv\<close> raises.\<close>

definition offline :: "(handle, string) library" where
  "offline = echo \<lparr> answer := (\<lambda>tr c.
     if entry c = ''pandas.read_csv'' then Inl ''URLError'' else answer echo tr c) \<rparr>"

subsection \<open>Where values come from and where they go\<close>

primrec atoms :: "'o pyval \<Rightarrow> 'o list" where
  "atoms PNone = []"
| "atoms (PBool b) = []"
| "atoms (PInt i) = []"
| "atoms (PFloat q) = []"
| "atoms (PStr s) = []"
| "atoms (PList vs) = concat (map atoms vs)"
| "atoms (PTuple vs) = concat (map atoms vs)"
| "atoms (PDict kvs) = concat (map snd (map (map_prod id atoms) kvs))"
| "atoms (PRef x) = [x]"

text \<open>The library values a request passes in, and the values an event uses.\<close>

definition inputs :: "'o call \<Rightarrow> 'o list" where
  "inputs c =
     (case c of
        Import m ns \<Rightarrow> []
      | Invoke f args kw \<Rightarrow> concat (map atoms args) @ concat (map (\<lambda>kv. atoms (snd kv)) kw)
      | Method r n args kw \<Rightarrow>
          atoms r @ concat (map atoms args) @ concat (map (\<lambda>kv. atoms (snd kv)) kw)
      | GetAttr r n \<Rightarrow> atoms r
      | GetItem r k \<Rightarrow> atoms r @ atoms k)"

fun used :: "('o, 'e) event \<Rightarrow> 'o list" where
  "used (Called c r) = inputs c"
| "used (Shown v) = [v]"

text \<open>The events a handle of the echoing library names.\<close>

fun refs :: "handle \<Rightarrow> nat list" where
  "refs Nothing = []"
| "refs (Res i) = [i]"
| "refs (Part i k) = [i]"
| "refs (Several hs) = concat (map refs hs)"
| "refs (Labels ys) = []"

definition is_import :: "'o call \<Rightarrow> bool" where
  "is_import c = (case c of Import m ns \<Rightarrow> True | _ \<Rightarrow> False)"

definition label :: "('o, 'e) event \<Rightarrow> string" where
  "label ev = (case ev of Called c r \<Rightarrow> entry c | Shown v \<Rightarrow> ''shown'')"

text \<open>
  The summary of a run against the echoing library: for each event, in order, its
  label and the handles it uses, which name the events that answered with them.
\<close>

definition summary :: "(handle, 'e) event list \<Rightarrow> (string \<times> handle list) list" where
  "summary tr = map (\<lambda>ev. (label ev, used ev)) tr"

definition sources :: "(string \<times> handle list) list \<Rightarrow> nat \<Rightarrow> nat list" where
  "sources sm i = concat (map refs (snd (sm ! i)))"

text \<open>Every value an event uses is the answer of an earlier event.\<close>

definition well_scoped :: "(string \<times> handle list) list \<Rightarrow> bool" where
  "well_scoped sm = list_all (\<lambda>i. list_all (\<lambda>j. j < i) (sources sm i)) [0..<length sm]"

text \<open>
  \<open>ancestors sm i need\<close> walks the summary backwards from event \<open>i\<close> and collects every
  event that one of the events in \<open>need\<close> takes a value from, directly or through
  other events. One pass is enough where a value comes from an earlier event.
\<close>

fun ancestors :: "(string \<times> handle list) list \<Rightarrow> nat \<Rightarrow> nat list \<Rightarrow> nat list" where
  "ancestors sm 0 need = need"
| "ancestors sm (Suc i) need =
     ancestors sm i (if i \<in> set need then need @ sources sm i else need)"

definition origins :: "(string \<times> handle list) list \<Rightarrow> nat \<Rightarrow> nat list" where
  "origins sm i = ancestors sm i (sources sm i)"

text \<open>\<open>fed_by sm f g\<close>: some request to \<open>f\<close> takes a value that derives from a request to \<open>g\<close>.\<close>

definition fed_by :: "(string \<times> handle list) list \<Rightarrow> string \<Rightarrow> string \<Rightarrow> bool" where
  "fed_by sm f g =
     list_ex (\<lambda>i. fst (sm ! i) = f \<and> list_ex (\<lambda>j. fst (sm ! j) = g) (origins sm i))
       [0..<length sm]"

text \<open>The distinct entries of a list, each at its first occurrence.\<close>

definition firsts :: "'a list \<Rightarrow> 'a list" where
  "firsts xs = rev (remdups (rev xs))"

text \<open>
  The steps of a run: the library entry points it requests (imports aside), in order
  of first use.
\<close>

definition steps :: "(string \<times> handle list) list \<Rightarrow> string list" where
  "steps sm = firsts (filter (\<lambda>n. n \<noteq> ''shown'' \<and> take 7 n \<noteq> ''import '') (map fst sm))"

text \<open>
  The positional arguments of the requests to the function \<open>f\<close>, one list per request.
\<close>

definition arguments :: "string \<Rightarrow> 'o call list \<Rightarrow> 'o pyval list list" where
  "arguments f cs =
     concat (map (\<lambda>c. case c of Invoke g args kw \<Rightarrow> if g = f then [args] else [] | _ \<Rightarrow> []) cs)"

text \<open>
  The number of hyperparameter settings a parameter table lists: the product of the
  lengths of the value lists of its keys. The search procedures take the table as
  their second argument.
\<close>

fun choices :: "'o pyval \<Rightarrow> nat" where
  "choices (PTuple vs) = length vs"
| "choices (PList vs) = length vs"
| "choices v = 0"

definition settings :: "'o pyval \<Rightarrow> nat" where
  "settings d = (case d of PDict kvs \<Rightarrow> prod_list (map (\<lambda>kv. choices (snd kv)) kvs) | _ \<Rightarrow> 0)"

definition settings_given :: "string \<Rightarrow> 'o call list \<Rightarrow> nat list" where
  "settings_given f cs =
     map (\<lambda>args. case args of estimator # table # rest \<Rightarrow> settings table | _ \<Rightarrow> 0) (arguments f cs)"

subsection \<open>Inputs, outputs and seeds of the requests\<close>

text \<open>
  What each library entry point the notebook uses does to the outside world, as its
  library documents it. An entry point the notebook does not use is \<open>Unclassified\<close>.
\<close>

datatype effect = Loads_module | Reads_url | Writes_stdout | Renders_figure | In_memory | Unclassified

definition in_memory_functions :: "string list" where
  "in_memory_functions =
     [''train_test_split'', ''SimpleImputer'', ''OneHotEncoder'', ''make_pipeline'',
      ''ColumnTransformer'', ''DecisionTreeClassifier'', ''Pipeline'', ''numpy.array'',
      ''numpy.ones'', ''accuracy_score'', ''confusion_matrix'', ''ConfusionMatrixDisplay'',
      ''balanced_accuracy_score'', ''precision_score'', ''recall_score'', ''cross_val_score'',
      ''GridSearchCV'', ''RandomizedSearchCV'']"

definition effect_of :: "'o call \<Rightarrow> effect" where
  "effect_of c =
     (case c of
        Import m ns \<Rightarrow> Loads_module
      | Invoke f args kw \<Rightarrow>
          if f = ''pandas.read_csv'' then Reads_url
          else if f = ''print'' then Writes_stdout
          else if f = ''plt.show'' then Renders_figure
          else if f \<in> set in_memory_functions then In_memory
          else Unclassified
      | Method r n args kw \<Rightarrow>
          if n = ''plot'' then Renders_figure
          else if n \<in> set [''head'', ''drop'', ''fit'', ''score'', ''predict''] then In_memory
          else Unclassified
      | GetAttr r n \<Rightarrow> if n = ''best_estimator_'' then In_memory else Unclassified
      | GetItem r k \<Rightarrow> In_memory)"

text \<open>The entry point whose answer a shown value is.\<close>

fun producer :: "('o, 'e) event list \<Rightarrow> 'o \<Rightarrow> string" where
  "producer [] v = ''?''"
| "producer (Called c r # evs) v = (if r = Inr v then entry c else producer evs v)"
| "producer (Shown w # evs) v = producer evs v"

text \<open>
  The outputs of a run, in order: what a cell shows (named by the entry point that
  produced the value), what is printed, and what is drawn.
\<close>

fun output_of :: "('o, 'e) event list \<Rightarrow> ('o, 'e) event \<Rightarrow> string list" where
  "output_of tr (Shown v) = [''shows '' @ producer tr v]"
| "output_of tr (Called c r) =
     (if effect_of c = Writes_stdout \<or> effect_of c = Renders_figure then [entry c] else [])"

definition outputs :: "('o, 'e) event list \<Rightarrow> string list" where
  "outputs tr = concat (map (output_of tr) tr)"

text \<open>
  The outputs that are a printed score, an array or score shown by a cell, or the
  drawing of the confusion matrix. A shown table, estimator or other object is not.
\<close>

definition score_array_or_image :: "string \<Rightarrow> bool" where
  "score_array_or_image out \<longleftrightarrow>
     out \<in> set [''print'', ''.plot'', ''plt.show'', ''shows .predict'', ''shows numpy.array'',
                ''shows accuracy_score'', ''shows confusion_matrix'',
                ''shows balanced_accuracy_score'', ''shows precision_score'',
                ''shows recall_score'', ''shows cross_val_score'']"

text \<open>
  The entry points that draw random numbers and take a \<^verbatim>\<open>random_state\<close>; left out, they
  draw from the process-wide generator.
\<close>

definition draws_randomness :: "'o call \<Rightarrow> bool" where
  "draws_randomness c \<longleftrightarrow>
     \<not> is_import c \<and>
     entry c \<in> set [''train_test_split'', ''DecisionTreeClassifier'', ''RandomizedSearchCV'']"

definition seeding :: "'o call list \<Rightarrow> (string \<times> 'o pyval option) list" where
  "seeding cs =
     map (\<lambda>c. (entry c, map_of (kwargs_of c) ''random_state'')) (filter draws_randomness cs)"

definition seeded :: "string \<times> 'o pyval option \<Rightarrow> bool" where
  "seeded p \<longleftrightarrow> (case snd p of Some (PInt n) \<Rightarrow> True | _ \<Rightarrow> False)"

text \<open>The \<^verbatim>\<open>cv\<close> arguments: a number of folds, or another splitter.\<close>

definition folds :: "'o call list \<Rightarrow> (string \<times> 'o pyval) list" where
  "folds cs =
     concat (map (\<lambda>c. case map_of (kwargs_of c) ''cv'' of None \<Rightarrow> [] | Some v \<Rightarrow> [(entry c, v)]) cs)"

subsection \<open>The label arrays of a run\<close>

text \<open>
  What the notebook names \<^verbatim>\<open>titanic_y\<close>, \<^verbatim>\<open>y_train\<close>, \<^verbatim>\<open>y_test\<close> and \<^verbatim>\<open>y_test_pred\<close> are
  values of the library. They are read off the trace. \<^verbatim>\<open>titanic_y\<close> is the answer to
  a subscript with \<^verbatim>\<open>"survived"\<close>.
\<close>

definition loaded_labels :: "('o, 'e) event \<Rightarrow> 'o list" where
  "loaded_labels ev =
     (case ev of
        Called (GetItem t k) (Inr y) \<Rightarrow> if k = PStr ''survived'' then [y] else []
      | _ \<Rightarrow> [])"

text \<open>
  \<^verbatim>\<open>y_train\<close> and \<^verbatim>\<open>y_test\<close> are the third and the fourth of the four values that the
  answer of \<^verbatim>\<open>train_test_split\<close> unpacks to.
\<close>

definition split_labels :: "('o, 'e) library \<Rightarrow> ('o, 'e) event \<Rightarrow> 'o list" where
  "split_labels L ev =
     (case ev of
        Called (Invoke f args kw) (Inr v) \<Rightarrow>
          if f = ''train_test_split''
          then (case items L v of Some [a, b, c, d] \<Rightarrow> [c, d] | _ \<Rightarrow> [])
          else []
      | _ \<Rightarrow> [])"

text \<open>
  The label array a request hands to an estimator: the second argument of \<^verbatim>\<open>fit\<close> and
  \<^verbatim>\<open>score\<close>, the third of \<^verbatim>\<open>cross_val_score\<close>.
\<close>

definition given_labels :: "'o call \<Rightarrow> 'o list" where
  "given_labels c =
     (case c of
        Method r n args kw \<Rightarrow>
          if n = ''fit'' \<or> n = ''score'' then concat (map atoms (take 1 (drop 1 args))) else []
      | Invoke f args kw \<Rightarrow>
          if f = ''cross_val_score'' then concat (map atoms (take 1 (drop 2 args))) else []
      | _ \<Rightarrow> [])"


text \<open>The predictions are the answers of \<^verbatim>\<open>predict\<close>.\<close>

definition predicted_labels :: "('o, 'e) event \<Rightarrow> 'o list" where
  "predicted_labels ev =
     (case ev of
        Called (Method r n args kw) (Inr p) \<Rightarrow> if n = ''predict'' then [p] else []
      | _ \<Rightarrow> [])"

text \<open>
  A label array is binary when each of its entries is 0 or 1. \<open>entries\<close> reads the
  entries of a value of the library.
\<close>

definition binary :: "int list \<Rightarrow> bool" where
  "binary ys = list_all (\<lambda>v. v = 0 \<or> v = 1) ys"

definition label_arrays :: "('o, 'e) library \<Rightarrow> ('o, 'e) event \<Rightarrow> 'o list" where
  "label_arrays L ev =
     loaded_labels ev @ split_labels L ev @
     (case ev of Called c r \<Rightarrow> given_labels c | Shown v \<Rightarrow> []) @ predicted_labels ev"

definition labels_binary :: "('o \<Rightarrow> int list) \<Rightarrow> ('o, 'e) library \<Rightarrow> ('o, 'e) event list \<Rightarrow> bool" where
  "labels_binary entries L tr =
     list_all (\<lambda>ev. list_all (\<lambda>y. binary (entries y)) (label_arrays L ev)) tr"




text \<open>
  \<open>keeps_labels entries L m\<close>: running the script \<open>m\<close> after a trace whose label arrays
  are all binary leaves a trace whose label arrays are all binary.
\<close>

definition keeps_labels :: "('o \<Rightarrow> int list) \<Rightarrow> ('o, 'e) library \<Rightarrow> ('a, 'o, 'e) script \<Rightarrow> bool" where
  "keeps_labels entries L m \<longleftrightarrow>
     (\<forall>tr. labels_binary entries L tr \<longrightarrow> labels_binary entries L (snd (m L tr)))"




section \<open>The library operations the claims reason about\<close>

text \<open>
  The notebook's calls end in pandas and scikit-learn, whose code is not part of the
  repository. Where a claim is about what such a call computes, the operation is
  written out here: the metrics from the formulas in the notebook's own text cells,
  the others from what the specification says of them.
\<close>

datatype py_error = ValueError | KeyError | IndexError

definition on_ok :: "'e + 'a \<Rightarrow> ('a \<Rightarrow> 'e + 'b) \<Rightarrow> 'e + 'b" where
  "on_ok r f = (case r of Inl e \<Rightarrow> Inl e | Inr x \<Rightarrow> f x)"

subsection \<open>Metrics on the imbalanced target\<close>

text \<open>
  Modelled from the spec: scikit-learn's \<^verbatim>\<open>accuracy_score\<close>, \<^verbatim>\<open>confusion_matrix\<close>,
  \<^verbatim>\<open>balanced_accuracy_score\<close>, \<^verbatim>\<open>precision_score\<close> and \<^verbatim>\<open>recall_score\<close>, which cells 7 to
  12 call and whose code is not in the repository. The specification says only that
  the notebook evaluates by scalar and matrix metrics; the formulas are those the
  notebook's own text cells state, and the layout of the matrix is the documented one.
\<close>

text \<open>
  Cells 6 and 7: \<^verbatim>\<open>y = numpy.array(([1] * 95) + ([0] * 5))\<close> and \<^verbatim>\<open>y_pred = numpy.ones(100)\<close>.
  Label values are rationals, so that the integer \<open>1\<close> of \<^verbatim>\<open>y\<close> and the float \<open>1.0\<close> of
  \<^verbatim>\<open>y_pred\<close> are the same label, as they are for the metrics.
\<close>

definition imbalanced_y :: "rat list" where
  "imbalanced_y = replicate 95 1 @ replicate 5 0"

definition imbalanced_y_pred :: "rat list" where
  "imbalanced_y_pred = replicate 100 1"

text \<open>How many samples have true label \<open>t\<close> and predicted label \<open>p\<close>.\<close>

definition count_pairs :: "rat list \<Rightarrow> rat list \<Rightarrow> rat \<Rightarrow> rat \<Rightarrow> nat" where
  "count_pairs y_true y_hat t p = length (filter (\<lambda>tp. fst tp = t \<and> snd tp = p) (zip y_true y_hat))"

text \<open>
  The notebook's formula: \<^verbatim>\<open>accuracy(y, y^) = 1/n_samples * sum of 1(y^_i = y_i)\<close>.
  A metric is \<open>None\<close> where its formula divides by zero.
\<close>

definition accuracy_score :: "rat list \<Rightarrow> rat list \<Rightarrow> rat option" where
  "accuracy_score y_true y_hat =
     (if length y_true = 0 then None
      else Some (of_nat (length (filter (\<lambda>tp. snd tp = fst tp) (zip y_true y_hat)))
                 / of_nat (length y_true)))"

text \<open>
  \<^verbatim>\<open>confusion_matrix(y, y_pred)\<close>: one row per true label and one column per predicted
  label, over the sorted labels that occur in either array; for the labels 0 and 1 it
  is \<^verbatim>\<open>[[TN, FP], [FN, TP]]\<close>.
\<close>

definition unique_labels :: "rat list \<Rightarrow> rat list \<Rightarrow> rat list" where
  "unique_labels y_true y_hat = sort (remdups (y_true @ y_hat))"

definition confusion_matrix :: "rat list \<Rightarrow> rat list \<Rightarrow> nat list list" where
  "confusion_matrix y_true y_hat =
     (let labels = unique_labels y_true y_hat
      in map (\<lambda>t. map (\<lambda>p. count_pairs y_true y_hat t p) labels) labels)"

definition TP :: "rat list \<Rightarrow> rat list \<Rightarrow> nat" where
  "TP y_true y_hat = count_pairs y_true y_hat 1 1"

definition TN :: "rat list \<Rightarrow> rat list \<Rightarrow> nat" where
  "TN y_true y_hat = count_pairs y_true y_hat 0 0"

definition FP :: "rat list \<Rightarrow> rat list \<Rightarrow> nat" where
  "FP y_true y_hat = count_pairs y_true y_hat 0 1"

definition FN :: "rat list \<Rightarrow> rat list \<Rightarrow> nat" where
  "FN y_true y_hat = count_pairs y_true y_hat 1 0"

text \<open>The notebook's formula: \<^verbatim>\<open>balanced-accuracy = 1/2 (TP / (TP + FN) + TN / (TN + FP))\<close>.\<close>

definition balanced_accuracy_score :: "rat list \<Rightarrow> rat list \<Rightarrow> rat option" where
  "balanced_accuracy_score y_true y_hat =
     (let tp = TP y_true y_hat; tn = TN y_true y_hat;
          fp = FP y_true y_hat; fn = FN y_true y_hat
      in if tp + fn = 0 \<or> tn + fp = 0 then None
         else Some (1 / 2 * (of_nat tp / of_nat (tp + fn) + of_nat tn / of_nat (tn + fp))))"

text \<open>The notebook's formula: \<^verbatim>\<open>precision = TP / (TP + FP)\<close>.\<close>

definition precision_score :: "rat list \<Rightarrow> rat list \<Rightarrow> rat option" where
  "precision_score y_true y_hat =
     (let tp = TP y_true y_hat; fp = FP y_true y_hat
      in if tp + fp = 0 then None else Some (of_nat tp / of_nat (tp + fp)))"

text \<open>The notebook's formula: \<^verbatim>\<open>recall = TP / (TP + FN)\<close>.\<close>

definition recall_score :: "rat list \<Rightarrow> rat list \<Rightarrow> rat option" where
  "recall_score y_true y_hat =
     (let tp = TP y_true y_hat; fn = FN y_true y_hat
      in if tp + fn = 0 then None else Some (of_nat tp / of_nat (tp + fn)))"

subsection \<open>Tables and the train/test split\<close>

text \<open>
  Modelled from the spec: pandas' \<^verbatim>\<open>DataFrame.drop\<close> and column subscript and
  scikit-learn's \<^verbatim>\<open>train_test_split\<close>, which cell 2 calls and whose code is not in the
  repository. The specification says the data is a table whose rows are passengers
  and whose columns are features plus the survival label, that the notebook splits
  it into train and test partitions, and that features and label stay row-aligned
  across the split. A table is an index (one entry per row, the first column of the
  file) and named columns; a split draws one permutation of the row positions, takes
  the test rows from its front and the train rows after them, and takes those rows
  from every array it is given. How many rows go to the test partition (the library
  rounds \<^verbatim>\<open>test_size\<close> times the number of rows up, in floating point) and the
  permutation the seeded generator draws are parameters.
\<close>

datatype datum = Num rat | Txt string | NaN

record dataframe =
  df_index :: "datum list"
  df_columns :: "(string \<times> datum list) list"

record series =
  s_index :: "datum list"
  s_values :: "datum list"

text \<open>\<^verbatim>\<open>titanic.drop("survived", axis=1)\<close>: the table without that column.\<close>

definition frame_drop :: "dataframe \<Rightarrow> string \<Rightarrow> py_error + dataframe" where
  "frame_drop df name =
     (if name \<in> set (map fst (df_columns df))
      then Inr (df \<lparr> df_columns := filter (\<lambda>c. fst c \<noteq> name) (df_columns df) \<rparr>)
      else Inl KeyError)"

text \<open>\<^verbatim>\<open>titanic["survived"]\<close>: that column, with the table's index.\<close>

definition frame_getitem :: "dataframe \<Rightarrow> string \<Rightarrow> py_error + series" where
  "frame_getitem df name =
     (case map_of (df_columns df) name of
        None \<Rightarrow> Inl KeyError
      | Some vs \<Rightarrow> Inr \<lparr> s_index = df_index df, s_values = vs \<rparr>)"

text \<open>Taking rows by position; a position outside the list raises.\<close>

definition take_rows :: "nat list \<Rightarrow> 'a list \<Rightarrow> py_error + 'a list" where
  "take_rows rows xs =
     (if list_all (\<lambda>i. i < length xs) rows then Inr (map (nth xs) rows) else Inl IndexError)"

fun take_columns :: "nat list \<Rightarrow> (string \<times> datum list) list \<Rightarrow> py_error + (string \<times> datum list) list" where
  "take_columns rows [] = Inr []"
| "take_columns rows ((name, vs) # cols) =
     on_ok (take_rows rows vs) (\<lambda>vs'.
     on_ok (take_columns rows cols) (\<lambda>cols'.
     Inr ((name, vs') # cols')))"

definition frame_take :: "nat list \<Rightarrow> dataframe \<Rightarrow> py_error + dataframe" where
  "frame_take rows df =
     on_ok (take_rows rows (df_index df)) (\<lambda>ix.
     on_ok (take_columns rows (df_columns df)) (\<lambda>cols.
     Inr \<lparr> df_index = ix, df_columns = cols \<rparr>))"

definition series_take :: "nat list \<Rightarrow> series \<Rightarrow> py_error + series" where
  "series_take rows s =
     on_ok (take_rows rows (s_index s)) (\<lambda>ix.
     on_ok (take_rows rows (s_values s)) (\<lambda>vs.
     Inr \<lparr> s_index = ix, s_values = vs \<rparr>))"

text \<open>
  The row positions of the two partitions of \<open>n\<close> rows: the test partition is the first
  \<open>test_count n\<close> entries of the permutation and the train partition the entries after
  them.
\<close>

definition test_rows :: "(nat \<Rightarrow> nat) \<Rightarrow> (nat \<Rightarrow> nat list) \<Rightarrow> nat \<Rightarrow> nat list" where
  "test_rows test_count permutation n = take (test_count n) (permutation n)"

definition train_rows :: "(nat \<Rightarrow> nat) \<Rightarrow> (nat \<Rightarrow> nat list) \<Rightarrow> nat \<Rightarrow> nat list" where
  "train_rows test_count permutation n =
     take (n - test_count n) (drop (test_count n) (permutation n))"

definition train_test_split ::
  "(nat \<Rightarrow> nat) \<Rightarrow> (nat \<Rightarrow> nat list) \<Rightarrow> dataframe \<Rightarrow> series
     \<Rightarrow> py_error + (dataframe \<times> dataframe \<times> series \<times> series)" where
  "train_test_split test_count permutation X y =
     (let n = length (df_index X) in
      if length (s_index y) \<noteq> n then Inl ValueError
      else if n - test_count n = 0 then Inl ValueError
      else
        on_ok (frame_take (train_rows test_count permutation n) X) (\<lambda>X_train.
        on_ok (frame_take (test_rows test_count permutation n) X) (\<lambda>X_test.
        on_ok (series_take (train_rows test_count permutation n) y) (\<lambda>y_train.
        on_ok (series_take (test_rows test_count permutation n) y) (\<lambda>y_test.
        Inr (X_train, X_test, y_train, y_test))))))"

text \<open>
  The data statements of cell 2, on a loaded table:
  \<^verbatim>\<open>titanic_X = titanic.drop("survived", axis=1)\<close>, \<^verbatim>\<open>titanic_y = titanic["survived"]\<close>,
  \<^verbatim>\<open>X_train, X_test, y_train, y_test = train_test_split(titanic_X, titanic_y, test_size=0.2, random_state=42)\<close>.
  \<open>test_count\<close> and \<open>permutation\<close> stand for what \<^verbatim>\<open>test_size=0.2\<close> and \<^verbatim>\<open>random_state=42\<close>
  make the library compute.
\<close>

definition split_titanic ::
  "(nat \<Rightarrow> nat) \<Rightarrow> (nat \<Rightarrow> nat list) \<Rightarrow> dataframe
     \<Rightarrow> py_error + (dataframe \<times> dataframe \<times> series \<times> series)" where
  "split_titanic test_count permutation titanic =
     on_ok (frame_drop titanic ''survived'') (\<lambda>titanic_X.
     on_ok (frame_getitem titanic ''survived'') (\<lambda>titanic_y.
     train_test_split test_count permutation titanic_X titanic_y))"

text \<open>Row \<open>i\<close> of a table: its index entry and its value in every column.\<close>

definition frame_row :: "dataframe \<Rightarrow> nat \<Rightarrow> datum \<times> (string \<times> datum) list" where
  "frame_row df i = (df_index df ! i, map (\<lambda>c. (fst c, snd c ! i)) (df_columns df))"

text \<open>
  \<open>aligned titanic rows X y\<close>: \<open>X\<close> and \<open>y\<close> have one entry per position in \<open>rows\<close>, and at
  each place \<open>k\<close> both come from row \<open>rows ! k\<close> of \<open>titanic\<close>: \<open>X\<close> holds that row without
  its \<^verbatim>\<open>survived\<close> value, \<open>y\<close> holds that row's index entry and \<^verbatim>\<open>survived\<close> value.
\<close>

definition aligned :: "dataframe \<Rightarrow> nat list \<Rightarrow> dataframe \<Rightarrow> series \<Rightarrow> bool" where
  "aligned titanic rows X y \<longleftrightarrow>
     length (df_index X) = length rows \<and> length (s_index y) = length rows \<and>
     length (s_values y) = length rows \<and>
     list_all (\<lambda>k.
        frame_row X k =
          (fst (frame_row titanic (rows ! k)),
           filter (\<lambda>c. fst c \<noteq> ''survived'') (snd (frame_row titanic (rows ! k)))) \<and>
        s_index y ! k = fst (frame_row titanic (rows ! k)) \<and>
        map_of (snd (frame_row titanic (rows ! k))) ''survived'' = Some (s_values y ! k))
       [0..<length rows]"

subsection \<open>Exhaustive search over a parameter grid\<close>

text \<open>
  Modelled from the spec: scikit-learn's \<^verbatim>\<open>GridSearchCV\<close>, which cell 15 constructs and
  fits and whose code is not in the repository. The specification calls it an outer
  search procedure that re-fits the pipeline under many hyperparameter settings and
  keeps the best result, the exhaustive exploration of the configuration values, and
  calls cross-validation the repeated partitioning of the data into folds to estimate
  performance; the notebook's text says the class searches exhaustively over all the
  specified parameter values. The search lists every combination of the values in
  \<^verbatim>\<open>parameters\<close>, scores each on every one of the \<^verbatim>\<open>cv\<close> folds, keeps the first
  combination with the highest mean score, and fits the pipeline anew with it. The
  score of a combination on a fold and the fitting are parameters.
\<close>

fun ParameterGrid :: "(string \<times> 'v list) list \<Rightarrow> (string \<times> 'v) list list" where
  "ParameterGrid [] = [[]]"
| "ParameterGrid ((name, vs) # rest) =
     concat (map (\<lambda>v. map (\<lambda>cfg. (name, v) # cfg) (ParameterGrid rest)) vs)"

text \<open>The values a dictionary of the notebook lists for each parameter name.\<close>

definition candidate_values :: "'o pyval \<Rightarrow> (string \<times> 'o pyval list) list" where
  "candidate_values d =
     (case d of
        PDict kvs \<Rightarrow>
          map (\<lambda>kv. (fst kv, (case snd kv of PTuple vs \<Rightarrow> vs | PList vs \<Rightarrow> vs | v \<Rightarrow> [v]))) kvs
      | _ \<Rightarrow> [])"

definition mean_score :: "rat list \<Rightarrow> rat" where
  "mean_score xs = sum_list xs / of_nat (length xs)"

text \<open>The first entry of \<open>b # xs\<close> at which \<open>f\<close> is largest.\<close>

fun first_best :: "('a \<Rightarrow> rat) \<Rightarrow> 'a \<Rightarrow> 'a list \<Rightarrow> 'a" where
  "first_best f b [] = b"
| "first_best f b (x # xs) = first_best f (if f b < f x then x else b) xs"

record ('c, 'm) search =
  cv_results :: "('c \<times> rat list) list"
  best_params :: 'c
  best_estimator :: 'm

definition grid_search_fit ::
  "nat \<Rightarrow> ('c \<Rightarrow> nat \<Rightarrow> rat) \<Rightarrow> ('c \<Rightarrow> 'm) \<Rightarrow> 'c list \<Rightarrow> py_error + ('c, 'm) search" where
  "grid_search_fit cv fold_score refit candidates =
     (case map (\<lambda>c. (c, map (fold_score c) [0..<cv])) candidates of
        [] \<Rightarrow> Inl ValueError
      | r # rs \<Rightarrow>
          (let best = fst (first_best (\<lambda>r. mean_score (snd r)) r rs)
           in Inr \<lparr> cv_results = r # rs, best_params = best, best_estimator = refit best \<rparr>))"

text \<open>Cell 15: \<^verbatim>\<open>clf = GridSearchCV(predictor, parameters, cv=5)\<close>, \<^verbatim>\<open>clf.fit(X_train, y_train)\<close>.\<close>

definition grid_search_cell ::
  "((string \<times> unit pyval) list \<Rightarrow> nat \<Rightarrow> rat) \<Rightarrow> ((string \<times> unit pyval) list \<Rightarrow> 'm)
     \<Rightarrow> py_error + ((string \<times> unit pyval) list, 'm) search" where
  "grid_search_cell fold_score refit =
     grid_search_fit 5 fold_score refit (ParameterGrid (candidate_values parameters_grid))"

subsection \<open>The fitted pipeline on one row\<close>

text \<open>
  Modelled from the spec: scikit-learn's \<^verbatim>\<open>Pipeline\<close>, \<^verbatim>\<open>ColumnTransformer\<close> and
  \<^verbatim>\<open>make_pipeline\<close>, which cell 3 composes and whose code is not in the repository.
  The specification calls the pipeline a fixed sequence of preprocessing plus
  prediction steps, and a preprocessing pipeline an ordered sequence of column-wise
  data transformations applied consistently to training and test data. A column
  transformer hands each of its transformers the columns listed for it and joins
  their outputs in order; with \<^verbatim>\<open>remainder="drop"\<close> the other columns are left out,
  with \<^verbatim>\<open>"passthrough"\<close> they are appended. A pipeline feeds each step the output of
  the one before. What a fitted imputer, encoder and tree compute is a parameter.
\<close>

type_synonym row = "(string \<times> datum) list"

datatype transformer =
    SimpleImputer string
  | OneHotEncoder bool string
  | Make_pipeline "transformer list"

datatype remainder = Drop | Passthrough

record column_transformer =
  transformers :: "(string \<times> transformer \<times> string list) list"
  remainder :: remainder

text \<open>Cell 3: the \<^verbatim>\<open>ColumnTransformer\<close> of \<^verbatim>\<open>predictor\<close>, with \<^verbatim>\<open>cat = ["pclass", "sex"]\<close> and \<^verbatim>\<open>num = ["age"]\<close>.\<close>

definition preprocessing :: column_transformer where
  "preprocessing = \<lparr>
     transformers =
       [(''cat'', Make_pipeline [SimpleImputer ''most_frequent'', OneHotEncoder False ''first''],
           [''pclass'', ''sex'']),
        (''num'', SimpleImputer ''mean'', [''age''])],
     remainder = Drop \<rparr>"

text \<open>The values of the listed columns of a row; a column the row lacks raises.\<close>

definition select_columns :: "string list \<Rightarrow> row \<Rightarrow> py_error + datum list" where
  "select_columns cols r =
     (if list_all (\<lambda>c. map_of r c \<noteq> None) cols
      then Inr (map (\<lambda>c. the (map_of r c)) cols)
      else Inl ValueError)"

text \<open>
  A fitted transformer on the values of its columns: \<open>fitted\<close> gives what a fitted
  imputer or encoder does, and a pipeline of transformers runs its steps in order.
\<close>

fun transform ::
  "(transformer \<Rightarrow> datum list \<Rightarrow> py_error + datum list) \<Rightarrow> transformer \<Rightarrow> datum list
     \<Rightarrow> py_error + datum list" where
  "transform fitted (Make_pipeline stages) xs =
     fold (\<lambda>stage acc. on_ok acc (transform fitted stage)) stages (Inr xs)"
| "transform fitted (SimpleImputer strategy) xs = fitted (SimpleImputer strategy) xs"
| "transform fitted (OneHotEncoder sparse dropped) xs = fitted (OneHotEncoder sparse dropped) xs"

fun transform_blocks ::
  "(transformer \<Rightarrow> datum list \<Rightarrow> py_error + datum list)
     \<Rightarrow> (string \<times> transformer \<times> string list) list \<Rightarrow> row \<Rightarrow> py_error + datum list" where
  "transform_blocks fitted [] r = Inr []"
| "transform_blocks fitted ((name, t, cols) # blocks) r =
     on_ok (select_columns cols r) (\<lambda>xs.
     on_ok (transform fitted t xs) (\<lambda>ys.
     on_ok (transform_blocks fitted blocks r) (\<lambda>rest.
     Inr (ys @ rest))))"

definition column_transform ::
  "(transformer \<Rightarrow> datum list \<Rightarrow> py_error + datum list) \<Rightarrow> column_transformer \<Rightarrow> row
     \<Rightarrow> py_error + datum list" where
  "column_transform fitted ct r =
     on_ok (transform_blocks fitted (transformers ct) r) (\<lambda>features.
       (case remainder ct of
          Drop \<Rightarrow> Inr features
        | Passthrough \<Rightarrow>
            Inr (features @
                 map snd (filter (\<lambda>kv. fst kv \<notin> set (concat (map (\<lambda>b. snd (snd b)) (transformers ct)))) r))))"

text \<open>
  \<^verbatim>\<open>predictor.predict\<close> on one row: the preprocessing of cell 3, then the fitted tree
  on the features.
\<close>

definition predict_row ::
  "(transformer \<Rightarrow> datum list \<Rightarrow> py_error + datum list) \<Rightarrow> (datum list \<Rightarrow> 'l) \<Rightarrow> row
     \<Rightarrow> py_error + 'l" where
  "predict_row fitted tree r =
     on_ok (column_transform fitted preprocessing r) (\<lambda>features. Inr (tree features))"

subsection \<open>Sample inputs\<close>

text \<open>
  A table of five passengers, a fifth of the rows rounded up, and a permutation of
  five row positions.
\<close>

definition five_passengers :: dataframe where
  "five_passengers = \<lparr>
     df_index = [Num 1, Num 2, Num 3, Num 4, Num 5],
     df_columns =
       [(''pclass'', [Txt ''1st'', Txt ''3rd'', Txt ''2nd'', Txt ''3rd'', Txt ''1st'']),
        (''survived'', [Num 1, Num 0, Num 1, Num 0, Num 0]),
        (''age'', [Num 29, NaN, Num 30, Num 2, Num 45]),
        (''sex'', [Txt ''female'', Txt ''male'', Txt ''female'', Txt ''male'', Txt ''male''])] \<rparr>"

definition a_fifth :: "nat \<Rightarrow> nat" where
  "a_fifth n = (n + 4) div 5"

definition shuffled :: "nat \<Rightarrow> nat list" where
  "shuffled n = [3, 0, 4, 1, 2]"

text \<open>A demonstration score: 1 on every fold for depth 5, 0 otherwise.\<close>

definition depth_five_score :: "(string \<times> unit pyval) list \<Rightarrow> nat \<Rightarrow> rat" where
  "depth_five_score cfg k = (if map_of cfg ''predictor__max_depth'' = Some (PInt 5) then 1 else 0)"

text \<open>
  A fitted pipeline for demonstration: the imputer puts 30 for a missing value, the
  encoder marks third class and male, and the tree predicts 1 for a female passenger.
\<close>

fun demo_fitted :: "transformer \<Rightarrow> datum list \<Rightarrow> py_error + datum list" where
  "demo_fitted (SimpleImputer strategy) xs = Inr (map (\<lambda>x. if x = NaN then Num 30 else x) xs)"
| "demo_fitted (OneHotEncoder sparse dropped) xs =
     Inr (map (\<lambda>x. if x = Txt ''3rd'' \<or> x = Txt ''male'' then Num 1 else Num 0) xs)"
| "demo_fitted (Make_pipeline stages) xs = Inl ValueError"

definition demo_tree :: "datum list \<Rightarrow> int" where
  "demo_tree features = (if features ! 1 = Num 0 then 1 else 0)"

section \<open>Straight-line scripts\<close>

lemma calls_of_append: "calls_of (a @ b) = calls_of a @ calls_of b"
  by (induction a rule: calls_of.induct) auto

lemma raises_append: "raises (a @ b) = raises a @ raises b"
  by (induction a rule: raises.induct) auto

lemma answered_append: "answered L tr (a @ b) \<longleftrightarrow> answered L tr a \<and> answered L (tr @ a) b"
  by (induction L tr a rule: answered.induct) auto

lemma straight_ret: "straight (ret x) []"
  by (simp add: straight_def ret_def)

lemma straight_display: "straight (display v) []"
  by (simp add: straight_def display_def)

lemma straight_unpack4: "straight (unpack4 v) []"
  by (auto simp add: straight_def unpack4_def split: option.splits list.splits)

lemma straight_call: "shape c = s \<Longrightarrow> straight (call c) [s]"
  by (auto simp add: straight_def call_def split: sum.splits)

lemma straight_andthen:
  assumes m: "straight m s1" and f: "\<And>x. straight (f x) s2"
  shows "straight (andthen m f) (s1 @ s2)"
  unfolding straight_def
proof (intro allI)
  fix L tr
  from m obtain new where new: "snd (m L tr) = tr @ new" "answered L tr new"
      "prefix (map shape (calls_of new)) s1"
      "(case fst (m L tr) of
           Inr x \<Rightarrow> map shape (calls_of new) = s1 \<and> raises new = []
         | Inl UnpackFailed \<Rightarrow> raises new = []
         | Inl (Raised e) \<Rightarrow> (\<exists>pre c. new = pre @ [Called c (Inl e)] \<and> raises pre = []))"
    unfolding straight_def by blast
  show "\<exists>new. snd (andthen m f L tr) = tr @ new \<and> answered L tr new \<and>
        prefix (map shape (calls_of new)) (s1 @ s2) \<and>
        (case fst (andthen m f L tr) of
           Inr x \<Rightarrow> map shape (calls_of new) = s1 @ s2 \<and> raises new = []
         | Inl UnpackFailed \<Rightarrow> raises new = []
         | Inl (Raised e) \<Rightarrow> (\<exists>pre c. new = pre @ [Called c (Inl e)] \<and> raises pre = []))"
  proof (cases "fst (m L tr)")
    case (Inl x)
    then have eq: "andthen m f L tr = (Inl x, tr @ new)"
      using new(1) by (cases "m L tr") (simp add: andthen_def)
    show ?thesis
      using new Inl by (intro exI[of _ new]) (auto simp add: eq)
  next
    case (Inr a)
    then have eq: "andthen m f L tr = f a L (tr @ new)"
      using new(1) by (cases "m L tr") (simp add: andthen_def)
    from f[of a] obtain new' where new': "snd (f a L (tr @ new)) = (tr @ new) @ new'"
      "answered L (tr @ new) new'"
      "prefix (map shape (calls_of new')) s2"
      "(case fst (f a L (tr @ new)) of
           Inr x \<Rightarrow> map shape (calls_of new') = s2 \<and> raises new' = []
         | Inl UnpackFailed \<Rightarrow> raises new' = []
         | Inl (Raised e) \<Rightarrow> (\<exists>pre c. new' = pre @ [Called c (Inl e)] \<and> raises pre = []))"
      unfolding straight_def by blast
    have m_ok: "map shape (calls_of new) = s1" "raises new = []"
      using new(4) Inr by simp_all
    show ?thesis
    proof (intro exI[of _ "new @ new'"] conjI)
      show "snd (andthen m f L tr) = tr @ new @ new'" using new'(1) by (simp add: eq)
      show "answered L tr (new @ new')" using new(2) new'(2) by (simp add: answered_append)
      show "prefix (map shape (calls_of (new @ new'))) (s1 @ s2)"
        using m_ok(1) new'(3) by (simp add: calls_of_append)
      show "case fst (andthen m f L tr) of
           Inr x \<Rightarrow> map shape (calls_of (new @ new')) = s1 @ s2 \<and> raises (new @ new') = []
         | Inl UnpackFailed \<Rightarrow> raises (new @ new') = []
         | Inl (Raised e) \<Rightarrow> (\<exists>pre c. new @ new' = pre @ [Called c (Inl e)] \<and> raises pre = [])"
      proof (cases "fst (f a L (tr @ new))")
        case (Inr y)
        then show ?thesis using new'(4) m_ok by (simp add: eq calls_of_append raises_append)
      next
        case (Inl x)
        show ?thesis
        proof (cases x)
          case UnpackFailed
          then show ?thesis using new'(4) m_ok Inl by (simp add: eq raises_append)
        next
          case (Raised e)
          then obtain pre c where "new' = pre @ [Called c (Inl e)]" "raises pre = []"
            using new'(4) Inl by auto
          then have "new @ new' = (new @ pre) @ [Called c (Inl e)] \<and> raises (new @ pre) = []"
            using m_ok by (simp add: raises_append)
          then show ?thesis using Inl Raised by (simp add: eq)
        qed
      qed
    qed
  qed
qed

lemma straight_call_then:
  "shape c = s \<Longrightarrow> (\<And>v. straight (f v) ss) \<Longrightarrow> straight (andthen (call c) f) (s # ss)"
  using straight_andthen[OF straight_call, of c s f ss] by simp

lemma straight_display_then:
  "straight (f ()) ss \<Longrightarrow> straight (andthen (display v) f) ss"
  using straight_andthen[OF straight_display, of f ss v] by simp

lemma straight_case_prod:
  "(\<And>a b. straight (f a b) ss) \<Longrightarrow> straight (case_prod f x) ss"
  by (cases x) simp

lemmas straight_intros =
  straight_call_then straight_display_then straight_ret straight_call straight_display
  straight_unpack4

lemma straight_cell_1: "straight cell_1 cell_1_text"
  unfolding cell_1_def cell_1_text_def
  by (intro straight_intros) (simp_all add: shape_def)

lemma straight_cell_2: "straight (cell_2 titanic) cell_2_text"
  unfolding cell_2_def cell_2_text_def
  by (intro straight_intros) (simp_all add: shape_def)

lemma straight_cell_3: "straight cell_3 cell_3_text"
  unfolding cell_3_def cell_3_text_def Let_def
  by (intro straight_intros) (simp_all add: shape_def)

lemma straight_cell_4: "straight (cell_4 p X y) cell_4_text"
  unfolding cell_4_def cell_4_text_def
  by (intro straight_intros) (simp_all add: shape_def)

lemma straight_cell_5: "straight (cell_5 p X y X') cell_5_text"
  unfolding cell_5_def cell_5_text_def
  by (intro straight_intros) (simp_all add: shape_def)

lemma straight_cell_6: "straight cell_6 cell_6_text"
  unfolding cell_6_def cell_6_text_def
  by (intro straight_intros) (simp_all add: shape_def)

lemma straight_cell_7: "straight (cell_7 y) cell_7_text"
  unfolding cell_7_def cell_7_text_def
  by (intro straight_intros) (simp_all add: shape_def)

lemma straight_cell_8: "straight (cell_8 y y') cell_8_text"
  unfolding cell_8_def cell_8_text_def
  by (intro straight_intros) (simp_all add: shape_def)

lemma straight_cell_9: "straight (cell_9 m) cell_9_text"
  unfolding cell_9_def cell_9_text_def
  by (intro straight_intros) (simp_all add: shape_def)

lemma straight_cell_10: "straight (cell_10 y y') cell_10_text"
  unfolding cell_10_def cell_10_text_def
  by (intro straight_intros) (simp_all add: shape_def)

lemma straight_cell_11: "straight (cell_11 y y') cell_11_text"
  unfolding cell_11_def cell_11_text_def
  by (intro straight_intros) (simp_all add: shape_def)

lemma straight_cell_12: "straight (cell_12 y y') cell_12_text"
  unfolding cell_12_def cell_12_text_def
  by (intro straight_intros) (simp_all add: shape_def)

lemma straight_cell_13: "straight cell_13 []"
  unfolding cell_13_def by (rule straight_ret)

lemma straight_cell_14: "straight (cell_14 p X y) cell_14_text"
  unfolding cell_14_def cell_14_text_def
  by (intro straight_intros) (simp_all add: shape_def)

lemma straight_cell_15: "straight (cell_15 p X y) cell_15_text"
  unfolding cell_15_def cell_15_text_def Let_def
  by (intro straight_intros) (simp_all add: shape_def parameters_grid_def)

lemma straight_cell_16: "straight (cell_16 p c X y) cell_16_text"
  unfolding cell_16_def cell_16_text_def
  by (intro straight_intros) (simp_all add: shape_def)

lemma straight_cell_17: "straight (cell_17 p X y) cell_17_text"
  unfolding cell_17_def cell_17_text_def Let_def
  by (intro straight_intros) (simp_all add: shape_def)

lemma straight_cell_18: "straight (cell_18 p c X y) cell_18_text"
  unfolding cell_18_def cell_18_text_def
  by (intro straight_intros) (simp_all add: shape_def)

lemmas straight_cells =
  straight_cell_1 straight_cell_2 straight_cell_3 straight_cell_4 straight_cell_5
  straight_cell_6 straight_cell_7 straight_cell_8 straight_cell_9 straight_cell_10
  straight_cell_11 straight_cell_12 straight_cell_13 straight_cell_14 straight_cell_15
  straight_cell_16 straight_cell_17 straight_cell_18

lemma straight_notebook: "straight notebook textual_order"
  unfolding notebook_def textual_order_def
  by (intro straight_andthen straight_case_prod straight_cells)

lemmas cells = cell_1_def cell_2_def cell_3_def cell_4_def cell_5_def cell_6_def cell_7_def
  cell_8_def cell_9_def cell_10_def cell_11_def cell_12_def cell_13_def cell_14_def cell_15_def
  cell_16_def cell_17_def cell_18_def

lemmas run_simps = notebook_def cells andthen_def call_def ret_def display_def unpack4_def
  upt_conv_Cons Let_def

subsection \<open>Exceptions and the order of execution\<close>

lemma notebook_run:
  assumes "notebook L [] = (res, tr)"
  shows "answered L [] tr"
    and "prefix (map shape (calls_of tr)) textual_order"
    and "(case res of
            Inr x \<Rightarrow> map shape (calls_of tr) = textual_order \<and> raises tr = []
          | Inl UnpackFailed \<Rightarrow> raises tr = []
          | Inl (Raised e) \<Rightarrow> (\<exists>pre c. tr = pre @ [Called c (Inl e)] \<and> raises pre = []))"
  using straight_notebook[unfolded straight_def, rule_format, of L "[]"] assms by auto

text \<open>
  Claim C4. Whatever the library answers: every answer in the trace is the library's
  own; when a request raises, the run ends with exactly that exception; and a run that
  ends with an exception of the library has the raising request as its last event, with
  no raise before it. So no exception is caught, replaced or followed by a retry. The
  scripts have no construct that catches an exception, repeats a request or checks a
  value: the only failure that is not the library's is the interpreter's own, at the
  tuple assignment of cell 2.
\<close>

theorem exceptions_propagate:
  assumes "notebook L [] = (res, tr)"
  shows "answered L [] tr \<and>
         (\<forall>e. e \<in> set (raises tr) \<longrightarrow> res = Inl (Raised e)) \<and>
         (\<forall>e. res = Inl (Raised e) \<longrightarrow>
              (\<exists>pre c. tr = pre @ [Called c (Inl e)] \<and> raises pre = []))"
proof (intro conjI allI impI)
  show "answered L [] tr" by (rule notebook_run(1)[OF assms])
next
  fix e assume "res = Inl (Raised e)"
  then show "\<exists>pre c. tr = pre @ [Called c (Inl e)] \<and> raises pre = []"
    using notebook_run(3)[OF assms] by simp
next
  fix e assume e: "e \<in> set (raises tr)"
  show "res = Inl (Raised e)"
  proof (cases res)
    case (Inr x)
    then show ?thesis using notebook_run(3)[OF assms] e by simp
  next
    case (Inl x)
    show ?thesis
    proof (cases x)
      case UnpackFailed
      then show ?thesis using notebook_run(3)[OF assms] e Inl by simp
    next
      case (Raised e')
      then obtain pre c where "tr = pre @ [Called c (Inl e')]" "raises pre = []"
        using notebook_run(3)[OF assms] Inl by auto
      then have "raises tr = [e']" by (simp add: raises_append)
      then show ?thesis using e Inl Raised by simp
    qed
  qed
qed

lemma offline_run:
  "notebook offline [] =
     (Inl (Raised ''URLError''),
      [Called (Import ''pandas'' []) (Inr (Res 0)),
       Called (Invoke ''pandas.read_csv'' [PStr ''https://hbiostat.org/data/repo/titanic.txt'']
                 [(''index_col'', PInt 0)]) (Inl ''URLError'')])"
  by (simp add: run_simps offline_def echo_def entry_def)

text \<open>
  Without network, the exception that \<^verbatim>\<open>pandas.read_csv\<close> raises is the outcome of the run.
\<close>

theorem exceptions_propagate_witness:
  "fst (notebook offline []) = Inl (Raised ''URLError'') \<and>
   raises (snd (notebook offline [])) = [''URLError''] \<and>
   answered offline [] (snd (notebook offline []))"
proof -
  have "answered offline [] (snd (notebook offline []))"
    using exceptions_propagate[OF offline_run] by (simp only: offline_run snd_conv)
  then show ?thesis by (simp add: offline_run del: answered.simps)
qed

text \<open>
  Claim C6, as amended. Whatever the library answers, the requests a run makes are the
  notebook's requests in textual order from the first one on, each once and none left
  out, as far as the run gets; and a run that ends without an exception makes all of
  them. (A script has no means of branching on a value, looping, running concurrently or
  being suspended: it is a function from the library and the trace so far to an outcome
  and a longer trace, built from requests by sequencing alone.)
\<close>

theorem sequential_execution:
  assumes "notebook L [] = (res, tr)"
  shows "prefix (map shape (calls_of tr)) textual_order \<and>
         ((\<exists>u. res = Inr u) \<longrightarrow> map shape (calls_of tr) = textual_order)"
  using notebook_run(2,3)[OF assms] by auto

text \<open>
  Claim C6 as stated has each statement executed exactly once in every run. Without
  network the run ends at \<^verbatim>\<open>pandas.read_csv\<close>: of the 62 requests only the first two
  are made.
\<close>

theorem sequential_execution_counterexample:
  "map shape (calls_of (snd (notebook offline []))) = take 2 textual_order \<and>
   length textual_order = 62"
  by (simp add: offline_run shape_def textual_order_def cell_1_text_def cell_2_text_def
      cell_3_text_def cell_4_text_def cell_5_text_def cell_6_text_def cell_7_text_def
      cell_8_text_def cell_9_text_def cell_10_text_def cell_11_text_def cell_12_text_def
      cell_14_text_def cell_15_text_def cell_16_text_def cell_17_text_def cell_18_text_def)

lemma echo_completes: "fst (notebook (echo :: (handle, unit) library) []) = Inr ()"
  by (simp add: run_simps echo_def)

text \<open>
  Against the echoing library the run completes and makes every request.
\<close>

theorem sequential_execution_witness:
  "fst (notebook (echo :: (handle, unit) library) []) = Inr () \<and>
   map shape (calls_of (snd (notebook (echo :: (handle, unit) library) []))) = textual_order"
proof -
  have run: "notebook (echo :: (handle, unit) library) [] = (Inr (), snd (notebook echo []))"
    using echo_completes by (metis prod.collapse)
  show ?thesis using sequential_execution[OF run] echo_completes by simp
qed

lemmas texts = textual_order_def cell_1_text_def cell_2_text_def
      cell_3_text_def cell_4_text_def cell_5_text_def cell_6_text_def cell_7_text_def
      cell_8_text_def cell_9_text_def cell_10_text_def cell_11_text_def cell_12_text_def
      cell_14_text_def cell_15_text_def cell_16_text_def cell_17_text_def cell_18_text_def

lemma echo_calls:
  "map shape (calls_of (snd (notebook (echo :: (handle, unit) library) []))) = textual_order"
proof -
  have run: "notebook (echo :: (handle, unit) library) [] = (Inr (), snd (notebook echo []))"
    using echo_completes by (metis prod.collapse)
  show ?thesis using notebook_run(3)[OF run] by simp
qed

subsection \<open>Seeds, reads and outputs\<close>

lemma prefix_filter: "prefix xs ys \<Longrightarrow> prefix (filter P xs) (filter P ys)"
  by (auto simp add: prefix_def)

lemma prefix_concat_map: "prefix xs ys \<Longrightarrow> prefix (concat (map f xs)) (concat (map f ys))"
  by (auto simp add: prefix_def)

lemma prefix_list_all: "prefix xs ys \<Longrightarrow> list_all P ys \<Longrightarrow> list_all P xs"
  by (auto simp add: prefix_def)

lemma seeding_text:
  "seeding textual_order =
     [(''train_test_split'', Some (PInt 42)), (''DecisionTreeClassifier'', None),
      (''RandomizedSearchCV'', Some (PInt 42))]"
  by (simp add: texts seeding_def draws_randomness_def is_import_def entry_def kwargs_of_def)

lemma folds_text:
  "folds textual_order =
     [(''cross_val_score'', PInt 10), (''GridSearchCV'', PInt 5), (''RandomizedSearchCV'', PInt 5)]"
  by (simp add: texts folds_def entry_def kwargs_of_def)

text \<open>
  Claim C9, as amended. Whatever the library answers, the requests that draw random
  numbers are, in order and as far as the run gets, \<^verbatim>\<open>train_test_split\<close> with
  \<^verbatim>\<open>random_state=42\<close>, \<^verbatim>\<open>DecisionTreeClassifier\<close> with no \<^verbatim>\<open>random_state\<close>, and
  \<^verbatim>\<open>RandomizedSearchCV\<close> with \<^verbatim>\<open>random_state=42\<close>; and the \<^verbatim>\<open>cv\<close> arguments are the fold
  counts 10, 5 and 5, never a splitter object. The notebook gives a seed to the split
  and to the randomized search; it gives none to the tree.
\<close>

theorem seeds_given:
  assumes "notebook L [] = (res, tr)"
  shows "prefix (seeding (map shape (calls_of tr)))
           [(''train_test_split'', Some (PInt 42)), (''DecisionTreeClassifier'', None),
            (''RandomizedSearchCV'', Some (PInt 42))] \<and>
         prefix (folds (map shape (calls_of tr)))
           [(''cross_val_score'', PInt 10), (''GridSearchCV'', PInt 5),
            (''RandomizedSearchCV'', PInt 5)]"
proof -
  have p: "prefix (map shape (calls_of tr)) textual_order" by (rule notebook_run(2)[OF assms])
  have "prefix (seeding (map shape (calls_of tr))) (seeding textual_order)"
    unfolding seeding_def by (intro map_mono_prefix prefix_filter p)
  moreover have "prefix (folds (map shape (calls_of tr))) (folds textual_order)"
    unfolding folds_def by (intro prefix_concat_map p)
  ultimately show ?thesis by (simp add: seeding_text folds_text)
qed

text \<open>
  In a complete run all three requests are made, seeded as stated.
\<close>

theorem seeds_given_witness:
  "seeding (map shape (calls_of (snd (notebook (echo :: (handle, unit) library) [])))) =
     [(''train_test_split'', Some (PInt 42)), (''DecisionTreeClassifier'', None),
      (''RandomizedSearchCV'', Some (PInt 42))] \<and>
   prefix (folds (map shape (calls_of (snd (notebook (echo :: (handle, unit) library) [])))))
     [(''cross_val_score'', PInt 10), (''GridSearchCV'', PInt 5),
      (''RandomizedSearchCV'', PInt 5)]"
proof -
  have run: "notebook (echo :: (handle, unit) library) [] = (Inr (), snd (notebook echo []))"
    using echo_completes by (metis prod.collapse)
  show ?thesis using seeds_given[OF run] by (simp add: echo_calls seeding_text)
qed

text \<open>
  Claim C9 as stated has every randomized operation given a fixed seed. The decision
  tree is constructed without one.
\<close>

theorem seeds_given_counterexample:
  "\<not> list_all seeded
       (seeding (map shape (calls_of (snd (notebook (echo :: (handle, unit) library) [])))))"
  by (simp add: echo_calls seeding_text seeded_def)

lemma read_text:
  "filter (\<lambda>c. effect_of c = Reads_url) textual_order =
     [Invoke ''pandas.read_csv'' [PStr ''https://hbiostat.org/data/repo/titanic.txt'']
        [(''index_col'', PInt 0)]]"
  by (simp add: texts effect_of_def in_memory_functions_def)

lemma effects_text:
  "list_all (\<lambda>c. effect_of c \<in> set [Loads_module, Reads_url, Writes_stdout, Renders_figure, In_memory])
     textual_order"
  by (simp add: texts effect_of_def in_memory_functions_def)

lemma echo_outputs:
  "outputs (snd (notebook (echo :: (handle, unit) library) [])) =
     [''shows .head'', ''shows .fit'', ''print'', ''shows .predict'', ''shows numpy.array'',
      ''shows accuracy_score'', ''shows confusion_matrix'', ''.plot'', ''plt.show'',
      ''shows balanced_accuracy_score'', ''shows precision_score'', ''shows recall_score'',
      ''shows cross_val_score'', ''shows .best_estimator_'', ''print'', ''print'',
      ''shows .best_estimator_'', ''print'', ''print'']"
  by (simp add: run_simps echo_def outputs_def effect_of_def in_memory_functions_def entry_def)

text \<open>
  Claim C5, as amended. Whatever the library answers, the only request that reads from
  outside is \<^verbatim>\<open>pandas.read_csv\<close> of the one fixed URL with \<^verbatim>\<open>index_col=0\<close> (and no other
  parsing option), made at most once; every request is an import, that read, a print,
  a drawing or a computation in memory, so none writes a file. The outputs of a
  complete run are, in order: the table that \<^verbatim>\<open>titanic.head()\<close> returns, the fitted
  pipeline, a printed score, the predictions, the target array, the accuracy, the
  confusion matrix, its drawing, the three other scores, the cross-validation scores,
  the best estimator of the grid search, two printed scores, the best estimator of the
  randomized search, and two printed scores.
\<close>

theorem external_interface:
  assumes "notebook L [] = (res, tr)"
  shows "prefix (filter (\<lambda>c. effect_of c = Reads_url) (map shape (calls_of tr)))
           [Invoke ''pandas.read_csv'' [PStr ''https://hbiostat.org/data/repo/titanic.txt'']
              [(''index_col'', PInt 0)]] \<and>
         list_all (\<lambda>c. effect_of c \<in> set [Loads_module, Reads_url, Writes_stdout, Renders_figure, In_memory])
           (map shape (calls_of tr)) \<and>
         outputs (snd (notebook (echo :: (handle, unit) library) [])) =
           [''shows .head'', ''shows .fit'', ''print'', ''shows .predict'', ''shows numpy.array'',
            ''shows accuracy_score'', ''shows confusion_matrix'', ''.plot'', ''plt.show'',
            ''shows balanced_accuracy_score'', ''shows precision_score'', ''shows recall_score'',
            ''shows cross_val_score'', ''shows .best_estimator_'', ''print'', ''print'',
            ''shows .best_estimator_'', ''print'', ''print'']"
proof -
  have p: "prefix (map shape (calls_of tr)) textual_order" by (rule notebook_run(2)[OF assms])
  have "prefix (filter (\<lambda>c. effect_of c = Reads_url) (map shape (calls_of tr)))
          (filter (\<lambda>c. effect_of c = Reads_url) textual_order)"
    by (rule prefix_filter[OF p])
  moreover have "list_all (\<lambda>c. effect_of c \<in> set [Loads_module, Reads_url, Writes_stdout, Renders_figure, In_memory])
           (map shape (calls_of tr))"
    by (rule prefix_list_all[OF p effects_text])
  ultimately show ?thesis by (simp only: read_text echo_outputs)
qed

text \<open>
  In a complete run the read is made exactly once.
\<close>

theorem external_interface_witness:
  "filter (\<lambda>c. effect_of c = Reads_url)
     (map shape (calls_of (snd (notebook (echo :: (handle, unit) library) [])))) =
     [Invoke ''pandas.read_csv'' [PStr ''https://hbiostat.org/data/repo/titanic.txt'']
        [(''index_col'', PInt 0)]] \<and>
   list_all (\<lambda>c. effect_of c \<in> set [Loads_module, Reads_url, Writes_stdout, Renders_figure, In_memory])
     (map shape (calls_of (snd (notebook (echo :: (handle, unit) library) []))))"
proof -
  have run: "notebook (echo :: (handle, unit) library) [] = (Inr (), snd (notebook echo []))"
    using echo_completes by (metis prod.collapse)
  show ?thesis using external_interface[OF run] by (simp only: echo_calls read_text)
qed

text \<open>
  Claim C5 as stated has printed scores, arrays and the drawn confusion matrix as the
  only outputs. The first output of a run is the table that \<^verbatim>\<open>titanic.head()\<close> returns,
  and the fitted pipeline and the best estimators are shown as well.
\<close>

theorem external_interface_counterexample:
  "\<not> list_all score_array_or_image (outputs (snd (notebook (echo :: (handle, unit) library) [])))"
  by (simp add: echo_outputs score_array_or_image_def)

subsection \<open>The flow of values\<close>

lemma echo_summary:
  "summary (snd (notebook (echo :: (handle, unit) library) [])) =
  [(''import pandas'', []), (''pandas.read_csv'', []), (''.head'', [Res 1]),
  (''shown'', [Res 2]), (''import sklearn.model_selection'', []),
  (''.drop'', [Res 1]), (''[]'', [Res 1]),
  (''train_test_split'', [Res 5, Res 6]), (''import sklearn.pipeline'', []),
  (''import sklearn.compose'', []), (''import sklearn.impute'', []),
  (''import sklearn.preprocessing'', []), (''import sklearn.tree'', []),
  (''import sklearn.preprocessing'', []), (''SimpleImputer'', []),
  (''OneHotEncoder'', []), (''make_pipeline'', [Res 14, Res 15]),
  (''SimpleImputer'', []), (''ColumnTransformer'', [Res 16, Res 17]),
  (''DecisionTreeClassifier'', []), (''Pipeline'', [Res 18, Res 19]),
  (''.fit'', [Res 20, Part 7 0, Part 7 2]), (''shown'', [Res 21]),
  (''.score'', [Res 20, Part 7 0, Part 7 2]), (''print'', [Res 23]),
  (''.predict'', [Res 20, Part 7 1]), (''shown'', [Res 25]),
  (''import numpy'', []), (''numpy.array'', []), (''shown'', [Res 28]),
  (''import sklearn.metrics'', []), (''numpy.ones'', []),
  (''accuracy_score'', [Res 28, Res 31]), (''shown'', [Res 32]),
  (''import sklearn.metrics'', []),
  (''confusion_matrix'', [Res 28, Res 31]), (''shown'', [Res 35]),
  (''import sklearn.metrics'', []), (''import matplotlib.pyplot'', []),
  (''ConfusionMatrixDisplay'', [Res 35]), (''.plot'', [Res 39]),
  (''plt.show'', []), (''import sklearn.metrics'', []),
  (''balanced_accuracy_score'', [Res 28, Res 31]), (''shown'', [Res 43]),
  (''import sklearn.metrics'', []), (''precision_score'', [Res 28, Res 31]),
  (''shown'', [Res 46]), (''import sklearn.metrics'', []),
  (''recall_score'', [Res 28, Res 31]), (''shown'', [Res 49]),
  (''import sklearn.model_selection'', []),
  (''cross_val_score'', [Res 20, Part 7 0, Part 7 2]),
  (''shown'', [Res 52]), (''import sklearn.model_selection'', []),
  (''GridSearchCV'', [Res 20]), (''.fit'', [Res 55, Part 7 0, Part 7 2]),
  (''.best_estimator_'', [Res 55]), (''shown'', [Res 57]),
  (''.score'', [Res 20, Part 7 1, Part 7 3]), (''print'', [Res 59]),
  (''.best_estimator_'', [Res 55]),
  (''.score'', [Res 61, Part 7 1, Part 7 3]), (''print'', [Res 62]),
  (''import sklearn.model_selection'', []),
  (''RandomizedSearchCV'', [Res 20]),
  (''.fit'', [Res 65, Part 7 0, Part 7 2]),
  (''.best_estimator_'', [Res 65]), (''shown'', [Res 67]),
  (''.score'', [Res 20, Part 7 1, Part 7 3]), (''print'', [Res 69]),
  (''.best_estimator_'', [Res 65]),
  (''.score'', [Res 71, Part 7 1, Part 7 3]), (''print'', [Res 72])]"
  by (simp add: run_simps echo_def summary_def label_def entry_def inputs_def parameters_grid_def)

text \<open>
  Claim C1 as stated has the fitted pipeline evaluated by scalar and matrix metrics.
  The matrix metric, \<^verbatim>\<open>confusion_matrix\<close>, takes no value that derives from the pipeline.
\<close>

theorem pipeline_flow_counterexample:
  "\<not> fed_by (summary (snd (notebook (echo :: (handle, unit) library) [])))
       ''confusion_matrix'' ''Pipeline''"
  unfolding echo_summary by code_simp

text \<open>
  Claim C1, as amended. In a complete run the steps come in this order: load the
  dataset, split it, construct the pipeline, fit it, score it and predict with it,
  build the synthetic arrays and compute the metrics on them, cross-validate, grid
  search, randomized search. Every value a request uses is the answer of an earlier
  request. The table is read from the Titanic URL (event 1); the split (event 7) takes
  that table without its \<^verbatim>\<open>survived\<close> column and that column; the pipeline (event 20) is
  constructed from the column transformer and the decision tree, under the names
  \<^verbatim>\<open>preprocessing\<close> and \<^verbatim>\<open>predictor\<close>; it is fitted and scored on parts 0 and 2 of the
  split, the training features and labels, and predicts on part 1, the test features.
  The synthetic pair is \<^verbatim>\<open>numpy.array\<close> of 95 ones followed by 5 zeros (event 28) and
  \<^verbatim>\<open>numpy.ones(100)\<close> (event 31); the scalar and matrix metrics take exactly that pair, the drawing takes
  the matrix, and none of them takes anything that derives from the pipeline or from
  the dataset. Cross-validation and both searches take the pipeline of event 20 and
  the training parts. Each search procedure is constructed from that pipeline and a
  table of hyperparameter settings to re-fit it under (36 combinations for the grid
  search, \<open>2 * 2 * 17 * 99\<close> combinations to sample from for the randomized search) and
  is fitted on the training parts; the best result it keeps, \<^verbatim>\<open>best_estimator_\<close>, is
  read from it twice, once to be shown and once to be scored on parts 1 and 3, the
  test features and labels, after the original pipeline has been scored on them.
\<close>

theorem pipeline_flow:
  "(let tr = snd (notebook (echo :: (handle, unit) library) []);
        sm = summary tr;
        requests = map shape (calls_of tr) in
      steps sm =
        [''pandas.read_csv'', ''.head'', ''.drop'', ''[]'', ''train_test_split'',
         ''SimpleImputer'', ''OneHotEncoder'', ''make_pipeline'', ''ColumnTransformer'',
         ''DecisionTreeClassifier'', ''Pipeline'', ''.fit'', ''.score'', ''print'', ''.predict'',
         ''numpy.array'', ''numpy.ones'', ''accuracy_score'', ''confusion_matrix'',
         ''ConfusionMatrixDisplay'', ''.plot'', ''plt.show'', ''balanced_accuracy_score'',
         ''precision_score'', ''recall_score'', ''cross_val_score'', ''GridSearchCV'',
         ''.best_estimator_'', ''RandomizedSearchCV''] \<and>
      well_scoped sm \<and>
      sm ! 1 = (''pandas.read_csv'', []) \<and>
      arguments ''pandas.read_csv'' requests =
        [[PStr ''https://hbiostat.org/data/repo/titanic.txt'']] \<and>
      sm ! 5 = (''.drop'', [Res 1]) \<and>
      sm ! 6 = (''[]'', [Res 1]) \<and>
      sm ! 7 = (''train_test_split'', [Res 5, Res 6]) \<and>
      fed_by sm ''train_test_split'' ''pandas.read_csv'' \<and>
      sm ! 16 = (''make_pipeline'', [Res 14, Res 15]) \<and>
      sm ! 18 = (''ColumnTransformer'', [Res 16, Res 17]) \<and>
      sm ! 19 = (''DecisionTreeClassifier'', []) \<and>
      sm ! 20 = (''Pipeline'', [Res 18, Res 19]) \<and>
      arguments ''Pipeline'' requests =
        [[PList [PTuple [PStr ''preprocessing'', PRef ()],
                 PTuple [PStr ''predictor'', PRef ()]]]] \<and>
      sm ! 21 = (''.fit'', [Res 20, Part 7 0, Part 7 2]) \<and>
      sm ! 23 = (''.score'', [Res 20, Part 7 0, Part 7 2]) \<and>
      sm ! 25 = (''.predict'', [Res 20, Part 7 1]) \<and>
      arguments ''numpy.array'' requests =
        [[PList (replicate 95 (PInt 1) @ replicate 5 (PInt 0))]] \<and>
      arguments ''numpy.ones'' requests = [[PInt 100]] \<and>
      sm ! 28 = (''numpy.array'', []) \<and>
      sm ! 31 = (''numpy.ones'', []) \<and>
      sm ! 32 = (''accuracy_score'', [Res 28, Res 31]) \<and>
      sm ! 35 = (''confusion_matrix'', [Res 28, Res 31]) \<and>
      sm ! 39 = (''ConfusionMatrixDisplay'', [Res 35]) \<and>
      sm ! 40 = (''.plot'', [Res 39]) \<and>
      sm ! 43 = (''balanced_accuracy_score'', [Res 28, Res 31]) \<and>
      sm ! 46 = (''precision_score'', [Res 28, Res 31]) \<and>
      sm ! 49 = (''recall_score'', [Res 28, Res 31]) \<and>
      list_all (\<lambda>f. fed_by sm f ''numpy.array'' \<and> \<not> fed_by sm f ''Pipeline'' \<and>
                    \<not> fed_by sm f ''pandas.read_csv'')
        [''accuracy_score'', ''confusion_matrix'', ''ConfusionMatrixDisplay'', ''.plot'',
         ''balanced_accuracy_score'', ''precision_score'', ''recall_score''] \<and>
      sm ! 52 = (''cross_val_score'', [Res 20, Part 7 0, Part 7 2]) \<and>
      sm ! 55 = (''GridSearchCV'', [Res 20]) \<and>
      arguments ''GridSearchCV'' requests = [[PRef (), parameters_grid]] \<and>
      settings_given ''GridSearchCV'' requests = [36] \<and>
      sm ! 56 = (''.fit'', [Res 55, Part 7 0, Part 7 2]) \<and>
      sm ! 57 = (''.best_estimator_'', [Res 55]) \<and>
      sm ! 58 = (''shown'', [Res 57]) \<and>
      sm ! 59 = (''.score'', [Res 20, Part 7 1, Part 7 3]) \<and>
      sm ! 61 = (''.best_estimator_'', [Res 55]) \<and>
      sm ! 62 = (''.score'', [Res 61, Part 7 1, Part 7 3]) \<and>
      sm ! 65 = (''RandomizedSearchCV'', [Res 20]) \<and>
      settings_given ''RandomizedSearchCV'' requests = [2 * 2 * 17 * 99] \<and>
      sm ! 66 = (''.fit'', [Res 65, Part 7 0, Part 7 2]) \<and>
      sm ! 67 = (''.best_estimator_'', [Res 65]) \<and>
      sm ! 68 = (''shown'', [Res 67]) \<and>
      sm ! 69 = (''.score'', [Res 20, Part 7 1, Part 7 3]) \<and>
      sm ! 71 = (''.best_estimator_'', [Res 65]) \<and>
      sm ! 72 = (''.score'', [Res 71, Part 7 1, Part 7 3]) \<and>
      length sm = 74)"
  unfolding Let_def echo_summary echo_calls by code_simp

subsection \<open>The labels of the partitions and the predictions\<close>








lemma keeps_unpack4: "keeps_labels entries L (unpack4 v)"
  by (auto simp add: keeps_labels_def unpack4_def split: option.splits list.splits)






























lemma list_all_concat: "list_all P (concat xss) \<longleftrightarrow> list_all (list_all P) xss"
  by (induction xss) auto









section \<open>Claims about the metrics\<close>

text \<open>
  Claim C8. On the imbalanced target of cells 6 and 7, 95 ones followed by 5 zeros,
  against the prediction of 100 ones, the metrics are exactly: accuracy 95/100,
  confusion matrix \<open>[[0, 5], [0, 95]]\<close>, balanced accuracy 1/2, precision 95/100 and
  recall 1.
\<close>

theorem imbalanced_metrics:
  "accuracy_score imbalanced_y imbalanced_y_pred = Some (95 / 100) \<and>
   confusion_matrix imbalanced_y imbalanced_y_pred = [[0, 5], [0, 95]] \<and>
   balanced_accuracy_score imbalanced_y imbalanced_y_pred = Some (1 / 2) \<and>
   precision_score imbalanced_y imbalanced_y_pred = Some (95 / 100) \<and>
   recall_score imbalanced_y imbalanced_y_pred = Some 1"
  by code_simp

section \<open>Claims about the split, the search and the pipeline\<close>

subsection \<open>Row alignment\<close>

lemma take_rows_Inr: "take_rows rows xs = Inr ys \<Longrightarrow> ys = map (nth xs) rows \<and> list_all (\<lambda>i. i < length xs) rows"
  by (auto simp add: take_rows_def split: if_splits)

lemma take_columns_Inr:
  "take_columns rows cols = Inr cols' \<Longrightarrow>
     cols' = map (\<lambda>c. (fst c, map (nth (snd c)) rows)) cols \<and>
     list_all (\<lambda>c. list_all (\<lambda>i. i < length (snd c)) rows) cols"
proof (induction cols arbitrary: cols')
  case Nil
  then show ?case by simp
next
  case (Cons c cols)
  obtain name vs where c: "c = (name, vs)" by (cases c)
  from Cons.prems obtain vs' rest where
    "take_rows rows vs = Inr vs'" "take_columns rows cols = Inr rest" "cols' = (name, vs') # rest"
    by (auto simp add: c on_ok_def split: sum.splits)
  then show ?case using Cons.IH[of rest] take_rows_Inr[of rows vs vs'] by (simp add: c)
qed

lemma frame_take_Inr:
  assumes "frame_take rows df = Inr X"
  shows "df_index X = map (nth (df_index df)) rows"
    and "df_columns X = map (\<lambda>c. (fst c, map (nth (snd c)) rows)) (df_columns df)"
  using assms take_rows_Inr take_columns_Inr
  by (fastforce simp add: frame_take_def on_ok_def split: sum.splits)+

lemma series_take_Inr:
  assumes "series_take rows s = Inr y"
  shows "s_index y = map (nth (s_index s)) rows" and "s_values y = map (nth (s_values s)) rows"
  using assms take_rows_Inr
  by (fastforce simp add: series_take_def on_ok_def split: sum.splits)+

text \<open>
  The modelled split answers with parts of the label column it is given: the labels
  of each partition are labels of that column.
\<close>

lemma take_rows_subset: "take_rows rows xs = Inr ys \<Longrightarrow> set ys \<subseteq> set xs"
  using take_rows_Inr[of rows xs ys] by (auto simp add: list_all_iff)

lemma series_take_subset:
  assumes "series_take rows s = Inr y"
  shows "set (s_values y) \<subseteq> set (s_values s)"
proof -
  from assms have "take_rows rows (s_values s) = Inr (s_values y)"
    by (auto simp add: series_take_def on_ok_def split: sum.splits)
  then show ?thesis by (rule take_rows_subset)
qed

lemma modelled_split_selects:
  assumes "train_test_split test_count permutation X y = Inr (X_train, X_test, y_train, y_test)"
  shows "set (s_values y_train) \<subseteq> set (s_values y) \<and> set (s_values y_test) \<subseteq> set (s_values y)"
proof -
  from assms have "series_take (train_rows test_count permutation (length (df_index X))) y = Inr y_train"
    and "series_take (test_rows test_count permutation (length (df_index X))) y = Inr y_test"
    by (auto simp add: train_test_split_def Let_def on_ok_def split: if_splits sum.splits)
  then show ?thesis by (simp add: series_take_subset)
qed

lemma map_of_row:
  "map_of cols name = Some vs \<Longrightarrow> map_of (map (\<lambda>c. (fst c, snd c ! j)) cols) name = Some (vs ! j)"
  by (induction cols) (auto split: if_splits)

lemma aligned_take:
  assumes X: "frame_take rows (titanic \<lparr> df_columns := filter (\<lambda>c. fst c \<noteq> ''survived'') (df_columns titanic) \<rparr>) = Inr X"
    and y: "series_take rows \<lparr> s_index = df_index titanic, s_values = vs \<rparr> = Inr y"
    and vs: "map_of (df_columns titanic) ''survived'' = Some vs"
  shows "aligned titanic rows X y"
proof -
  have Xi: "df_index X = map (nth (df_index titanic)) rows"
    and Xc: "df_columns X = map (\<lambda>c. (fst c, map (nth (snd c)) rows))
               (filter (\<lambda>c. fst c \<noteq> ''survived'') (df_columns titanic))"
    using frame_take_Inr[OF X] by simp_all
  have yi: "s_index y = map (nth (df_index titanic)) rows"
    and yv: "s_values y = map (nth vs) rows"
    using series_take_Inr[OF y] by simp_all
  have row: "frame_row X k =
          (fst (frame_row titanic (rows ! k)),
           filter (\<lambda>c. fst c \<noteq> ''survived'') (snd (frame_row titanic (rows ! k))))"
    if "k < length rows" for k
    using that by (simp add: frame_row_def Xi Xc filter_map comp_def)
  have lab: "map_of (snd (frame_row titanic (rows ! k))) ''survived'' = Some (s_values y ! k)"
    if "k < length rows" for k
    using that map_of_row[OF vs, of "rows ! k"] by (simp add: frame_row_def yv)
  show ?thesis
    unfolding aligned_def
    by (simp add: Xi yi yv list_all_iff row lab) (simp add: frame_row_def)
qed

text \<open>
  Claim C2. When the split of a loaded table succeeds, the training features and labels
  are taken at one and the same list of row positions, and so are the test features and
  labels: at every place, the feature row and the label come from the same row of the
  loaded table, the features being that row without \<^verbatim>\<open>survived\<close> and the label its
  \<^verbatim>\<open>survived\<close> value.
\<close>

theorem split_keeps_rows_aligned:
  assumes "split_titanic test_count permutation titanic = Inr (X_train, X_test, y_train, y_test)"
  shows "aligned titanic (train_rows test_count permutation (length (df_index titanic)))
           X_train y_train \<and>
         aligned titanic (test_rows test_count permutation (length (df_index titanic)))
           X_test y_test"
proof -
  from assms obtain vs where vs: "map_of (df_columns titanic) ''survived'' = Some vs"
    and split: "train_test_split test_count permutation
        (titanic \<lparr> df_columns := filter (\<lambda>c. fst c \<noteq> ''survived'') (df_columns titanic) \<rparr>)
        \<lparr> s_index = df_index titanic, s_values = vs \<rparr> =
        Inr (X_train, X_test, y_train, y_test)"
    by (auto simp add: split_titanic_def frame_drop_def frame_getitem_def on_ok_def
        split: if_splits option.splits)
  let ?X = "titanic \<lparr> df_columns := filter (\<lambda>c. fst c \<noteq> ''survived'') (df_columns titanic) \<rparr>"
  let ?y = "\<lparr> s_index = df_index titanic, s_values = vs \<rparr>"
  let ?n = "length (df_index titanic)"
  from split have
    "frame_take (train_rows test_count permutation ?n) ?X = Inr X_train"
    "frame_take (test_rows test_count permutation ?n) ?X = Inr X_test"
    "series_take (train_rows test_count permutation ?n) ?y = Inr y_train"
    "series_take (test_rows test_count permutation ?n) ?y = Inr y_test"
    by (auto simp add: train_test_split_def on_ok_def Let_def split: if_splits sum.splits)
  then show ?thesis using aligned_take vs by blast
qed

lemma five_split:
  "split_titanic a_fifth shuffled five_passengers =
     Inr (\<lparr> df_index = [Num 1, Num 5, Num 2, Num 3],
            df_columns =
              [(''pclass'', [Txt ''1st'', Txt ''1st'', Txt ''3rd'', Txt ''2nd'']),
               (''age'', [Num 29, Num 45, NaN, Num 30]),
               (''sex'', [Txt ''female'', Txt ''male'', Txt ''male'', Txt ''female''])] \<rparr>,
          \<lparr> df_index = [Num 4],
            df_columns = [(''pclass'', [Txt ''3rd'']), (''age'', [Num 2]), (''sex'', [Txt ''male''])] \<rparr>,
          \<lparr> s_index = [Num 1, Num 5, Num 2, Num 3], s_values = [Num 1, Num 0, Num 0, Num 1] \<rparr>,
          \<lparr> s_index = [Num 4], s_values = [Num 0] \<rparr>)"
  by (simp add: split_titanic_def five_passengers_def shuffled_def a_fifth_def frame_drop_def frame_getitem_def
      train_test_split_def on_ok_def frame_take_def series_take_def take_rows_def
      train_rows_def test_rows_def)

text \<open>
  Five passengers, split into four training rows and one test row.
\<close>

theorem split_keeps_rows_aligned_witness:
  "aligned five_passengers [0, 4, 1, 2]
     \<lparr> df_index = [Num 1, Num 5, Num 2, Num 3],
       df_columns =
         [(''pclass'', [Txt ''1st'', Txt ''1st'', Txt ''3rd'', Txt ''2nd'']),
          (''age'', [Num 29, Num 45, NaN, Num 30]),
          (''sex'', [Txt ''female'', Txt ''male'', Txt ''male'', Txt ''female''])] \<rparr>
     \<lparr> s_index = [Num 1, Num 5, Num 2, Num 3], s_values = [Num 1, Num 0, Num 0, Num 1] \<rparr> \<and>
   aligned five_passengers [3]
     \<lparr> df_index = [Num 4],
       df_columns = [(''pclass'', [Txt ''3rd'']), (''age'', [Num 2]), (''sex'', [Txt ''male''])] \<rparr>
     \<lparr> s_index = [Num 4], s_values = [Num 0] \<rparr>"
proof -
  have rows: "train_rows a_fifth shuffled (length (df_index five_passengers)) = [0, 4, 1, 2]"
    "test_rows a_fifth shuffled (length (df_index five_passengers)) = [3]"
    by (simp_all add: train_rows_def test_rows_def shuffled_def a_fifth_def five_passengers_def)
  show ?thesis using split_keeps_rows_aligned[OF five_split] by (simp only: rows)
qed

subsection \<open>Grid search\<close>

lemma first_best_in: "first_best f b xs \<in> set (b # xs)"
  by (induction xs arbitrary: b) auto

lemma first_best_ge_start: "f b \<le> f (first_best f b xs)"
proof (induction xs arbitrary: b)
  case Nil
  then show ?case by simp
next
  case (Cons x xs)
  show ?case
  proof (cases "f b < f x")
    case True
    then show ?thesis using Cons[of x] by simp
  next
    case False
    then show ?thesis using Cons[of b] by simp
  qed
qed

lemma first_best_max: "x \<in> set (b # xs) \<Longrightarrow> f x \<le> f (first_best f b xs)"
proof (induction xs arbitrary: b)
  case Nil
  then show ?case by simp
next
  case (Cons y ys)
  show ?case
  proof (cases "x = b")
    case True
    then show ?thesis using first_best_ge_start[of f b "y # ys"] by simp
  next
    case False
    then have x: "x \<in> set (y # ys)" using Cons.prems by simp
    show ?thesis
    proof (cases "f b < f y")
      case True
      then show ?thesis using Cons.IH[of y] x by simp
    next
      case False
      have "f x \<le> f (first_best f b ys)"
      proof (cases "x = y")
        case True
        then have "f x \<le> f b" using False by simp
        then show ?thesis using first_best_ge_start[of f b ys] by simp
      next
        case False
        then show ?thesis using Cons.IH[of b] x by simp
      qed
      then show ?thesis using False by simp
    qed
  qed
qed

lemma the_grid:
  "ParameterGrid (candidate_values (parameters_grid :: unit pyval)) =
     concat (map (\<lambda>s. concat (map (\<lambda>c. concat (map (\<lambda>d. map (\<lambda>l.
       [(''preprocessing__num__strategy'', s), (''predictor__criterion'', c),
        (''predictor__max_depth'', d), (''predictor__min_samples_leaf'', l)])
       [PInt 5, PInt 10, PInt 20]) [PInt 3, PInt 5, PInt 10]))
       [PStr ''gini'', PStr ''entropy''])) [PStr ''mean'', PStr ''median''])"
  by (simp add: parameters_grid_def candidate_values_def)

lemma the_grid_length: "length (ParameterGrid (candidate_values (parameters_grid :: unit pyval))) = 36"
  by (simp add: the_grid)

lemma the_grid_distinct: "distinct (ParameterGrid (candidate_values (parameters_grid :: unit pyval)))"
  by (simp add: the_grid)

text \<open>
  Claim C3. The grid search of cell 15 succeeds; its candidates are exactly the
  combinations of the listed values, 36 distinct ones, every combination of the 2
  strategies, 2 criteria, 3 depths and 3 leaf sizes among them; each is scored on the
  five folds; the chosen parameters are one of the candidates whose mean score is
  highest; and the best estimator is the pipeline fitted anew with them.
\<close>

theorem grid_search_exhaustive:
  "\<exists>R. grid_search_cell fold_score refit = Inr R \<and>
     map fst (cv_results R) = ParameterGrid (candidate_values parameters_grid) \<and>
     length (cv_results R) = 36 \<and>
     distinct (map fst (cv_results R)) \<and>
     (\<forall>s \<in> set [PStr ''mean'', PStr ''median'']. \<forall>c \<in> set [PStr ''gini'', PStr ''entropy''].
      \<forall>d \<in> set [PInt 3, PInt 5, PInt 10]. \<forall>l \<in> set [PInt 5, PInt 10, PInt 20].
        [(''preprocessing__num__strategy'', s), (''predictor__criterion'', c),
         (''predictor__max_depth'', d), (''predictor__min_samples_leaf'', l)]
          \<in> set (map fst (cv_results R))) \<and>
     (\<forall>r \<in> set (cv_results R). snd r = map (fold_score (fst r)) [0..<5]) \<and>
     best_params R \<in> set (map fst (cv_results R)) \<and>
     (\<forall>c \<in> set (map fst (cv_results R)).
        mean_score (map (fold_score c) [0..<5])
          \<le> mean_score (map (fold_score (best_params R)) [0..<5])) \<and>
     best_estimator R = refit (best_params R)"
proof -
  let ?G = "ParameterGrid (candidate_values (parameters_grid :: unit pyval))"
  let ?score = "\<lambda>c. map (fold_score c) [0..<5]"
  let ?results = "map (\<lambda>c. (c, ?score c)) ?G"
  let ?g = "\<lambda>r :: (string \<times> unit pyval) list \<times> rat list. mean_score (snd r)"
  have "?results \<noteq> []" using the_grid_length by auto
  then obtain r rs where rs: "?results = r # rs" by (cases ?results) auto
  let ?fb = "first_best ?g r rs"
  let ?R = "\<lparr> cv_results = r # rs, best_params = fst ?fb, best_estimator = refit (fst ?fb) \<rparr>"
  have run: "grid_search_cell fold_score refit = Inr ?R"
    by (simp add: grid_search_cell_def grid_search_fit_def rs Let_def)
  have fsts: "map fst (r # rs) = ?G"
    using arg_cong[OF rs, of "map fst"] by (simp add: comp_def)
  have each: "\<forall>x \<in> set (r # rs). snd x = ?score (fst x)"
    using rs[symmetric] by auto
  have fb_in: "?fb \<in> set (r # rs)" by (rule first_best_in)
  have fb_snd: "snd ?fb = ?score (fst ?fb)" using each fb_in by blast
  have best_max: "\<forall>c \<in> set (map fst (r # rs)).
      mean_score (?score c) \<le> mean_score (?score (fst ?fb))"
  proof
    fix c assume "c \<in> set (map fst (r # rs))"
    then have "c \<in> fst ` set (r # rs)" by (simp only: set_map)
    then obtain x where x: "x \<in> set (r # rs)" "fst x = c" by (auto simp only: image_iff)
    from first_best_max[OF x(1), of ?g] have le: "mean_score (snd x) \<le> mean_score (snd ?fb)" .
    have "snd x = ?score c" using each x by blast
    then show "mean_score (?score c) \<le> mean_score (?score (fst ?fb))"
      using le fb_snd by simp
  qed
  have all_in: "\<forall>s \<in> set [PStr ''mean'', PStr ''median'']. \<forall>c \<in> set [PStr ''gini'', PStr ''entropy''].
      \<forall>d \<in> set [PInt 3, PInt 5, PInt 10]. \<forall>l \<in> set [PInt 5, PInt 10, PInt 20].
        [(''preprocessing__num__strategy'', s), (''predictor__criterion'', c),
         (''predictor__max_depth'', d), (''predictor__min_samples_leaf'', l)]
          \<in> set ?G"
    by (simp add: the_grid)
  show ?thesis
  proof (intro exI[of _ ?R] conjI)
    show "grid_search_cell fold_score refit = Inr ?R" by (rule run)
    show "map fst (cv_results ?R) = ?G" using fsts by simp
    show "length (cv_results ?R) = 36"
      using arg_cong[OF fsts, of length] the_grid_length by simp
    show "distinct (map fst (cv_results ?R))" using fsts the_grid_distinct by simp
    show "\<forall>s \<in> set [PStr ''mean'', PStr ''median'']. \<forall>c \<in> set [PStr ''gini'', PStr ''entropy''].
      \<forall>d \<in> set [PInt 3, PInt 5, PInt 10]. \<forall>l \<in> set [PInt 5, PInt 10, PInt 20].
        [(''preprocessing__num__strategy'', s), (''predictor__criterion'', c),
         (''predictor__max_depth'', d), (''predictor__min_samples_leaf'', l)]
          \<in> set (map fst (cv_results ?R))"
      using all_in fsts by simp
    show "\<forall>r \<in> set (cv_results ?R). snd r = map (fold_score (fst r)) [0..<5]"
      using each by simp
    show "best_params ?R \<in> set (map fst (cv_results ?R))" using fb_in by auto
    show "\<forall>c \<in> set (map fst (cv_results ?R)).
        mean_score (map (fold_score c) [0..<5])
          \<le> mean_score (map (fold_score (best_params ?R)) [0..<5])"
      using best_max by simp
    show "best_estimator ?R = refit (best_params ?R)" by simp
  qed
qed

text \<open>
  With the demonstration score the search returns a candidate of mean score 1.
\<close>

theorem grid_search_exhaustive_witness:
  "\<exists>R. grid_search_cell depth_five_score (\<lambda>cfg. cfg) = Inr R \<and>
     length (cv_results R) = 36 \<and>
     [(''preprocessing__num__strategy'', PStr ''median''), (''predictor__criterion'', PStr ''gini''),
      (''predictor__max_depth'', PInt 5), (''predictor__min_samples_leaf'', PInt 20)]
        \<in> set (map fst (cv_results R)) \<and>
     1 \<le> mean_score (map (depth_five_score (best_params R)) [0..<5]) \<and>
     best_estimator R = best_params R"
proof -
  let ?c = "[(''preprocessing__num__strategy'', PStr ''median''), (''predictor__criterion'', PStr ''gini''),
      (''predictor__max_depth'', PInt 5), (''predictor__min_samples_leaf'', PInt 20 :: unit pyval)]"
  from grid_search_exhaustive[of depth_five_score "\<lambda>cfg. cfg"]
  obtain R where R: "grid_search_cell depth_five_score (\<lambda>cfg. cfg) = Inr R"
    "length (cv_results R) = 36"
    "\<forall>s \<in> set [PStr ''mean'', PStr ''median'']. \<forall>c \<in> set [PStr ''gini'', PStr ''entropy''].
      \<forall>d \<in> set [PInt 3, PInt 5, PInt 10]. \<forall>l \<in> set [PInt 5, PInt 10, PInt 20].
        [(''preprocessing__num__strategy'', s), (''predictor__criterion'', c),
         (''predictor__max_depth'', d), (''predictor__min_samples_leaf'', l)]
          \<in> set (map fst (cv_results R))"
    "\<forall>c \<in> set (map fst (cv_results R)).
        mean_score (map (depth_five_score c) [0..<5])
          \<le> mean_score (map (depth_five_score (best_params R)) [0..<5])"
    "best_estimator R = best_params R"
    by blast
  have in_grid: "?c \<in> set (map fst (cv_results R))" using R(3) by simp
  have "mean_score (map (depth_five_score ?c) [0..<5]) = 1"
    by (simp add: mean_score_def depth_five_score_def upt_conv_Cons)
  then have "1 \<le> mean_score (map (depth_five_score (best_params R)) [0..<5])"
    using R(4) in_grid by (metis)
  then show ?thesis using R(1,2,5) in_grid by blast
qed

subsection \<open>Columns the prediction depends on\<close>

lemma select_columns_agree:
  "\<forall>c \<in> set cols. map_of r1 c = map_of r2 c \<Longrightarrow> select_columns cols r1 = select_columns cols r2"
  by (simp add: select_columns_def list_all_iff cong: map_cong)

text \<open>
  Claim C10. Two rows that agree on \<^verbatim>\<open>pclass\<close>, \<^verbatim>\<open>sex\<close> and \<^verbatim>\<open>age\<close> get the same
  prediction (or raise the same error), whatever their other columns hold and whatever
  the fitted imputers, encoder and tree compute.
\<close>

theorem prediction_uses_three_columns:
  assumes "\<forall>c \<in> set [''pclass'', ''sex'', ''age'']. map_of r1 c = map_of r2 c"
  shows "predict_row fitted tree r1 = predict_row fitted tree r2"
proof -
  have cat: "select_columns [''pclass'', ''sex''] r1 = select_columns [''pclass'', ''sex''] r2"
    by (rule select_columns_agree) (use assms in simp)
  have num: "select_columns [''age''] r1 = select_columns [''age''] r2"
    by (rule select_columns_agree) (use assms in simp)
  show ?thesis
    by (simp add: predict_row_def column_transform_def preprocessing_def cat num)
qed

text \<open>
  Two rows with different other columns, in different column order.
\<close>

theorem prediction_uses_three_columns_witness:
  "predict_row demo_fitted demo_tree
     [(''pclass'', Txt ''1st''), (''sex'', Txt ''female''), (''age'', NaN),
      (''fare'', Num 211), (''embarked'', Txt ''Southampton'')] = Inr 1 \<and>
   predict_row demo_fitted demo_tree
     [(''name'', Txt ''Allen''), (''age'', NaN), (''sex'', Txt ''female''),
      (''pclass'', Txt ''1st''), (''fare'', Num 7)] = Inr 1"
proof -
  let ?r1 = "[(''pclass'', Txt ''1st''), (''sex'', Txt ''female''), (''age'', NaN),
      (''fare'', Num 211), (''embarked'', Txt ''Southampton'')]"
  let ?r2 = "[(''name'', Txt ''Allen''), (''age'', NaN), (''sex'', Txt ''female''),
      (''pclass'', Txt ''1st''), (''fare'', Num 7)]"
  have agree: "\<forall>c \<in> set [''pclass'', ''sex'', ''age'']. map_of ?r1 c = map_of ?r2 c" by simp
  have one: "predict_row demo_fitted demo_tree ?r1 = Inr 1"
    by (simp add: predict_row_def column_transform_def preprocessing_def select_columns_def
        on_ok_def demo_tree_def)
  show ?thesis using prediction_uses_three_columns[OF agree, of demo_fitted demo_tree] one
    by simp
qed

text \<open>Had the remainder been passed through, the other columns would reach the tree.\<close>

lemma passthrough_keeps_other_columns:
  "column_transform demo_fitted (preprocessing \<lparr> remainder := Passthrough \<rparr>)
     [(''pclass'', Txt ''1st''), (''sex'', Txt ''female''), (''age'', NaN), (''fare'', Num 211)] =
   Inr [Num 0, Num 0, Num 30, Num 211]"
  by (simp add: column_transform_def preprocessing_def select_columns_def on_ok_def)

end
